theory Spec2Isabelle
  imports Main
begin

section \<open>Values of the route handlers\<close>

text \<open>
  The route handlers receive a JSON request body, run SQL statements on the transaction
  they are given and return an object \<open>{status, json}\<close>. JSON values carry integers
  for numbers; the handlers modelled here only count with small integers (step numbers,
  row counts).
\<close>

datatype json =
    JNull
  | JBool bool
  | JNum int
  | JStr string
  | JArr "json list"
  | JObj "(string \<times> json) list"

text \<open>JavaScript truthiness, as \<open>!x\<close>, \<open>x || y\<close> and \<open>if (x)\<close> read it.\<close>

fun truthy :: "json \<Rightarrow> bool" where
  "truthy JNull = False"
| "truthy (JBool b) = b"
| "truthy (JNum n) = (n \<noteq> 0)"
| "truthy (JStr s) = (s \<noteq> [])"
| "truthy (JArr xs) = True"
| "truthy (JObj kvs) = True"

text \<open>A field that is \<open>undefined\<close> or \<open>null\<close> is \<open>None\<close>; so is a SQL NULL.\<close>

definition str_truthy :: "string option \<Rightarrow> bool" where
  "str_truthy x = (case x of None \<Rightarrow> False | Some s \<Rightarrow> s \<noteq> [])"

definition str_or :: "string option \<Rightarrow> string \<Rightarrow> string" where
  "str_or x d = (case x of None \<Rightarrow> d | Some s \<Rightarrow> if s = [] then d else s)"

definition str_or_opt :: "string option \<Rightarrow> string option \<Rightarrow> string option" where
  "str_or_opt x y = (if str_truthy x then x else y)"

definition json_truthy :: "json option \<Rightarrow> bool" where
  "json_truthy x = (case x of None \<Rightarrow> False | Some j \<Rightarrow> truthy j)"

definition json_or :: "json option \<Rightarrow> json \<Rightarrow> json" where
  "json_or x d = (case x of None \<Rightarrow> d | Some j \<Rightarrow> if truthy j then j else d)"

text \<open>The value JavaScript reads from a nullable column or an optional field.\<close>

definition js_of :: "json option \<Rightarrow> json" where
  "js_of x = (case x of None \<Rightarrow> JNull | Some j \<Rightarrow> j)"

definition js_text :: "string option \<Rightarrow> json" where
  "js_text x = (case x of None \<Rightarrow> JNull | Some s \<Rightarrow> JStr s)"

definition js_nat :: "nat option \<Rightarrow> json" where
  "js_nat x = (case x of None \<Rightarrow> JNull | Some n \<Rightarrow> JNum (int n))"

text \<open>Property access \<open>o.k\<close> on a JSON object; \<open>None\<close> is \<open>undefined\<close>.\<close>

definition jget :: "json \<Rightarrow> string \<Rightarrow> json option" where
  "jget j k = (case j of JObj kvs \<Rightarrow> map_of kvs k | _ \<Rightarrow> None)"

text \<open>An optional, nullable field of a request body: \<open>x !== undefined\<close> tells the two apart.\<close>

datatype 'a jsfield = Undefined | Given "'a option"

subsection \<open>Decimal numerals and string conversion\<close>

definition digit_char :: "nat \<Rightarrow> char" where
  "digit_char d = ''0123456789'' ! d"

function show_nat :: "nat \<Rightarrow> string" where
  "show_nat n = (if n < 10 then [digit_char n] else show_nat (n div 10) @ [digit_char (n mod 10)])"
  by pat_completeness auto
termination
  by (relation "measure id") auto

declare show_nat.simps [simp del]

definition show_int :: "int \<Rightarrow> string" where
  "show_int i = (if i < 0 then CHR ''-'' # show_nat (nat (- i)) else show_nat (nat i))"

fun join_with :: "string \<Rightarrow> string list \<Rightarrow> string" where
  "join_with sep [] = []"
| "join_with sep [x] = x"
| "join_with sep (x # y # ys) = x @ sep @ join_with sep (y # ys)"

text \<open>
  Strings are held as the bytes of their UTF-8 encoding. \<open>String.prototype.length\<close>
  counts UTF-16 code units: one for a character of one, two or three bytes, two for a
  character of four bytes; a continuation byte counts with its leading byte.
\<close>

definition utf16_units :: "char \<Rightarrow> nat" where
  "utf16_units ch =
     (let b = (of_char ch :: nat)
      in if b < 128 then 1 else if b < 192 then 0 else if b < 240 then 1 else 2)"

definition js_length :: "string \<Rightarrow> nat" where
  "js_length s = sum_list (map utf16_units s)"

text \<open>
  String conversion of a value inside a template literal. An array joins its elements
  with commas, \<open>null\<close> elements as the empty string; an object prints as
  \<open>[object Object]\<close>.
\<close>

fun js_string :: "json \<Rightarrow> string" where
  "js_string JNull = ''null''"
| "js_string (JBool b) = (if b then ''true'' else ''false'')"
| "js_string (JNum n) = show_int n"
| "js_string (JStr s) = s"
| "js_string (JArr xs) = join_with '','' (map (\<lambda>x. if x = JNull then [] else js_string x) xs)"
| "js_string (JObj kvs) = ''[object Object]''"

subsection \<open>Requests and responses\<close>

text \<open>
  What a handler reads besides the body: the transaction's timestamp (\<open>now()\<close>) and
  date (\<open>CURRENT_DATE\<close>), the root URL of the request, \<open>req.user?.id\<close>, and
  JavaScript's \<open>encodeURIComponent\<close>, \<open>String.prototype.toUpperCase\<close> and
  \<open>String.prototype.trim\<close>, which are parameters.
\<close>

record ctx =
  now :: nat
  today :: nat
  root_url :: string
  req_user :: "string option"
  encodeURIComponent :: "string \<Rightarrow> string"
  toUpperCase :: "string \<Rightarrow> string"
  trim :: "string \<Rightarrow> string"

text \<open>\<open>req.user?.id || 'unknown'\<close>\<close>

definition user_id :: "ctx \<Rightarrow> string" where
  "user_id c = str_or (req_user c) ''unknown''"

text \<open>The returned object: \<open>status\<close> is \<open>None\<close> where the handler sets none.\<close>

record response =
  status :: "nat option"
  body :: json

definition error_response :: "nat \<Rightarrow> string \<Rightarrow> response" where
  "error_response st msg = \<lparr>status = Some st, body = JObj [(''error'', JStr msg)]\<rparr>"

section \<open>The tables\<close>

record doc =
  d_id :: nat
  d_slug :: string
  d_title :: "string option"
  d_body_md :: "string option"
  d_version :: "string option"
  d_status :: "string option"
  d_frontmatter :: "json option"
  d_author :: "string option"
  d_is_edited :: bool
  d_edited_by :: "string option"
  d_updated_at :: nat

record draft =
  dr_id :: nat
  dr_doc_id :: nat
  dr_version :: string
  dr_title :: "string option"
  dr_body_md :: "string option"
  dr_frontmatter :: "json option"
  dr_status :: string
  dr_created_by :: string
  dr_updated_by :: string
  dr_created_at :: nat
  dr_updated_at :: nat
  dr_reviewer_notes :: "string option"

record doc_version =
  dv_doc_id :: nat
  dv_version :: string
  dv_title :: "string option"
  dv_body_md :: "string option"
  dv_frontmatter :: "json option"
  dv_author :: "string option"
  dv_published_by :: string
  dv_published_at :: nat
  dv_content_hash :: "string option"
  dv_superseded_at :: "nat option"
  dv_superseded_by :: "string option"
  dv_changes :: "string option"

text \<open>
  A row of \<open>qms.controlled_documents\<close> is a map from column name to value: the register's
  PUT handler builds its SET clause from the field names of the request body.
\<close>

type_synonym cdoc = "string \<Rightarrow> json option"

definition col :: "cdoc \<Rightarrow> string \<Rightarrow> json" where
  "col r k = js_of (r k)"

record transition =
  tr_id :: nat
  tr_document_id :: string
  tr_action :: string
  tr_from_status :: "string option"
  tr_to_status :: "string option"
  tr_from_version :: "string option"
  tr_to_version :: "string option"
  tr_performed_by :: string
  tr_comment :: "string option"
  tr_evidence_ref :: "string option"
  tr_performed_at :: nat

record evidence =
  ev_id :: nat
  ev_document_id :: string
  ev_transition_id :: "nat option"
  ev_evidence_type :: string
  ev_evidence_data :: json
  ev_evidence_text :: "string option"
  ev_recorded_by :: string
  ev_recorded_at :: nat
  ev_is_superseded :: bool

record evidence_type =
  ret_code :: string
  ret_label :: string
  ret_required :: bool
  ret_phase :: int

text \<open>
  The schema is not part of the sources. What the statements leave to it is a parameter of
  the database: the column defaults an INSERT relies on, whether a trigger refreshes
  \<open>updated_at\<close> of a draft on UPDATE, and the database's \<open>sha256\<close> in hexadecimal.
\<close>

record schema =
  draft_status_default :: string
  evidence_is_superseded_default :: bool
  user_role_active_default :: bool
  draft_update_touches_updated_at :: bool
  sha256_hex :: "string \<Rightarrow> string"

record training_session =
  ts_id :: nat
  ts_user_id :: string
  ts_module_id :: nat
  ts_training_doc_id :: "string option"
  ts_current_step :: int
  ts_status :: string
  ts_completed_at :: "nat option"
  ts_certificate_id :: "nat option"

record step_def =
  sd_step :: int
  sd_key :: string
  sd_validation :: string

record training_module =
  tm_id :: nat
  tm_module_code :: string
  tm_title :: string
  tm_steps :: "step_def list"
  tm_grants_roles :: "string list option"

record step_completion =
  sc_session_id :: nat
  sc_step_number :: int
  sc_step_key :: string
  sc_validated_by :: string
  sc_validation_data :: json

record certificate =
  ce_certificate_id :: nat
  ce_session_id :: nat
  ce_user_id :: string
  ce_user_fullname :: "string option"
  ce_module_code :: string
  ce_module_title :: string
  ce_qualified_for :: "string list option"

record user_role =
  ur_user_id :: string
  ur_role_code :: string
  ur_granted_by :: string
  ur_granted_at :: nat
  ur_active :: bool

record user_row =
  u_id :: string
  u_fullname :: "string option"

text \<open>
  The database. A table is the list of its rows; \<open>next_id\<close> is the next value the
  database generates for an id column.
\<close>

record db =
  docs :: "doc list"
  doc_drafts :: "draft list"
  doc_versions :: "doc_version list"
  controlled_documents :: "cdoc list"
  document_transitions :: "transition list"
  document_evidence :: "evidence list"
  ref_evidence_types :: "evidence_type list"
  training_sessions :: "training_session list"
  training_modules :: "training_module list"
  training_step_completions :: "step_completion list"
  training_certificates :: "certificate list"
  user_roles :: "user_role list"
  users :: "user_row list"
  next_id :: nat
  db_schema :: schema

section \<open>Document drafts (routes/docs/drafts)\<close>

subsection \<open>Helpers\<close>

text \<open>
  \<open>getQmsDocumentId\<close>: the \<open>document_id\<close> of the first register row whose \<open>docs_id\<close> is the
  document's id, \<open>None\<close> (null) when the document is not QMS-registered.
\<close>

definition getQmsDocumentId :: "db \<Rightarrow> nat \<Rightarrow> string option" where
  "getQmsDocumentId s docsId =
     (case filter (\<lambda>r. r ''docs_id'' = Some (JNum (int docsId))) (controlled_documents s) of
        [] \<Rightarrow> None
      | r # _ \<Rightarrow> (case r ''document_id'' of Some (JStr x) \<Rightarrow> Some x | _ \<Rightarrow> None))"

text \<open>\<open>insertEvidence\<close>: one row more in \<open>qms.document_evidence\<close>.\<close>

definition insertEvidence ::
  "ctx \<Rightarrow> string \<Rightarrow> nat option \<Rightarrow> string \<Rightarrow> json \<Rightarrow> string \<Rightarrow> string \<Rightarrow> db \<Rightarrow> db" where
  "insertEvidence c documentId transitionId evidenceType evidenceData evidenceText recordedBy s =
     s\<lparr>document_evidence := document_evidence s @
         [\<lparr>ev_id = next_id s,
           ev_document_id = documentId,
           ev_transition_id = (case transitionId of None \<Rightarrow> None
                               | Some n \<Rightarrow> if n = 0 then None else Some n),
           ev_evidence_type = evidenceType,
           ev_evidence_data = evidenceData,
           ev_evidence_text = (if evidenceText = [] then None else Some evidenceText),
           ev_recorded_by = recordedBy,
           ev_recorded_at = now c,
           ev_is_superseded = evidence_is_superseded_default (db_schema s)\<rparr>],
       next_id := next_id s + 1\<rparr>"

text \<open>The scalar subquery \<open>(SELECT id FROM i18n.docs WHERE slug = ?)\<close>; \<open>slug\<close> is a key.\<close>

definition slug_doc_id :: "db \<Rightarrow> string \<Rightarrow> nat option" where
  "slug_doc_id s slug =
     (case filter (\<lambda>d. d_slug d = slug) (docs s) of [] \<Rightarrow> None | d # _ \<Rightarrow> Some (d_id d))"

text \<open>The columns of a draft row, as \<open>RETURNING\<close> lists them.\<close>

definition draft_json :: "draft \<Rightarrow> (string \<times> json) list" where
  "draft_json r =
     [(''id'', JNum (int (dr_id r))),
      (''doc_id'', JNum (int (dr_doc_id r))),
      (''version'', JStr (dr_version r)),
      (''title'', js_text (dr_title r)),
      (''body_md'', js_text (dr_body_md r)),
      (''frontmatter'', js_of (dr_frontmatter r)),
      (''status'', JStr (dr_status r)),
      (''created_by'', JStr (dr_created_by r)),
      (''updated_by'', JStr (dr_updated_by r)),
      (''created_at'', JNum (int (dr_created_at r))),
      (''updated_at'', JNum (int (dr_updated_at r))),
      (''reviewer_notes'', js_text (dr_reviewer_notes r))]"

definition draft_url :: "ctx \<Rightarrow> string \<Rightarrow> json" where
  "draft_url c slug = JStr (root_url c @ ''/@docs/draft?slug='' @ encodeURIComponent c slug)"

text \<open>A template literal prints \<open>undefined\<close> for a missing property.\<close>

definition js_string_opt :: "json option \<Rightarrow> string" where
  "js_string_opt x = (case x of None \<Rightarrow> ''undefined'' | Some j \<Rightarrow> js_string j)"

subsection \<open>GET /@docs/draft\<close>


subsection \<open>PUT /@docs/draft\<close>

record put_draft_body =
  pd_slug :: "string option"
  pd_version :: "string option"
  pd_title :: "string jsfield"
  pd_body_md :: "string jsfield"
  pd_frontmatter :: "json option"
  pd_justification :: "json option"

text \<open>
  \<open>INSERT INTO i18n.doc_drafts ... ON CONFLICT (doc_id) DO UPDATE SET ... RETURNING ...\<close>:
  a draft of the document is updated in place, and only when there is none a row is
  added. The result is the returned row and the database.
\<close>

definition upsert_draft_update ::
  "ctx \<Rightarrow> schema \<Rightarrow> string \<Rightarrow> string option \<Rightarrow> string option \<Rightarrow> json \<Rightarrow> string \<Rightarrow> draft \<Rightarrow> draft" where
  "upsert_draft_update c sch version title body_md frontmatter userId r =
     r\<lparr>dr_version := version,
       dr_title := title,
       dr_body_md := body_md,
       dr_frontmatter := Some frontmatter,
       dr_updated_by := userId,
       dr_status := (if dr_status r = ''rejected'' then ''draft'' else dr_status r),
       dr_reviewer_notes := (if dr_status r = ''rejected'' then None else dr_reviewer_notes r),
       dr_updated_at := (if draft_update_touches_updated_at sch then now c else dr_updated_at r)\<rparr>"

definition upsert_draft ::
  "ctx \<Rightarrow> nat \<Rightarrow> string \<Rightarrow> string option \<Rightarrow> string option \<Rightarrow> json \<Rightarrow> string \<Rightarrow> db \<Rightarrow> draft \<times> db" where
  "upsert_draft c docId version title body_md frontmatter userId s =
     (case filter (\<lambda>r. dr_doc_id r = docId) (doc_drafts s) of
        [] \<Rightarrow>
          (let row = \<lparr>dr_id = next_id s, dr_doc_id = docId, dr_version = version,
                      dr_title = title, dr_body_md = body_md,
                      dr_frontmatter = Some frontmatter,
                      dr_status = draft_status_default (db_schema s),
                      dr_created_by = userId, dr_updated_by = userId,
                      dr_created_at = now c, dr_updated_at = now c,
                      dr_reviewer_notes = None\<rparr>
           in (row, s\<lparr>doc_drafts := doc_drafts s @ [row], next_id := next_id s + 1\<rparr>))
      | r # _ \<Rightarrow>
          (let upd = upsert_draft_update c (db_schema s) version title body_md frontmatter userId
           in (upd r,
               s\<lparr>doc_drafts := map (\<lambda>x. if dr_doc_id x = docId then upd x else x)
                                  (doc_drafts s)\<rparr>)))"

definition justification_data :: "json \<Rightarrow> json" where
  "justification_data j =
     JObj [(''what'', json_or (jget j ''what'') (JStr [])),
           (''why'', json_or (jget j ''why'') (JStr [])),
           (''scope'', json_or (jget j ''scope'') (JStr [])),
           (''classification_estimate'', json_or (jget j ''classification_estimate'') (JStr [])),
           (''trigger'', json_or (jget j ''trigger'') (JStr ''manual''))]"

definition putDocDraft :: "ctx \<Rightarrow> put_draft_body \<Rightarrow> db \<Rightarrow> response \<times> db" where
  "putDocDraft c b s =
     (let userId = user_id c in
      if \<not> str_truthy (pd_slug b) then (error_response 400 ''Document slug required'', s)
      else
        let slug = str_or (pd_slug b) [] in
        case filter (\<lambda>d. d_slug d = slug) (docs s) of
          [] \<Rightarrow> (error_response 404 ''Document not found'', s)
        | doc # _ \<Rightarrow>
            if \<not> str_truthy (pd_version b)
            then (error_response 400 ''Version is required for a draft'', s)
            else
              let (draft, s1) =
                    upsert_draft c (d_id doc) (str_or (pd_version b) [])
                      (case pd_title b of Undefined \<Rightarrow> d_title doc | Given t \<Rightarrow> t)
                      (case pd_body_md b of Undefined \<Rightarrow> d_body_md doc | Given t \<Rightarrow> t)
                      (case pd_frontmatter b of None \<Rightarrow> js_of (d_frontmatter doc) | Some f \<Rightarrow> f)
                      userId s;
                  isNew = (dr_created_at draft = dr_updated_at draft);
                  s2 = (if isNew \<and> json_truthy (pd_justification b)
                        then (case getQmsDocumentId s1 (d_id doc) of
                                None \<Rightarrow> s1
                              | Some qmsDocId \<Rightarrow>
                                  if qmsDocId = [] then s1
                                  else
                                    let j = js_of (pd_justification b) in
                                    insertEvidence c qmsDocId None ''justification''
                                      (justification_data j)
                                      (''Justification: '' @
                                         js_string (json_or (jget j ''why'') (JStr ''(not provided)'')))
                                      userId s1)
                        else s1)
              in (\<lparr>status = Some (if isNew then 201 else 200),
                   body = JObj ((''@id'', draft_url c slug) # draft_json draft)\<rparr>, s2))"

subsection \<open>DELETE /@docs/draft\<close>

definition deleteDocDraft :: "ctx \<Rightarrow> string option \<Rightarrow> db \<Rightarrow> response \<times> db" where
  "deleteDocDraft c q_slug s =
     (if \<not> str_truthy q_slug then (error_response 400 ''Document slug required'', s)
      else
        let slug = str_or q_slug [];
            hit = (\<lambda>r. Some (dr_doc_id r) = slug_doc_id s slug)
        in if filter hit (doc_drafts s) = []
           then (error_response 404 ''No draft found for this document'', s)
           else (\<lparr>status = None,
                  body = JObj [(''@id'', draft_url c slug),
                               (''message'', JStr ''Draft abandoned successfully'')]\<rparr>,
                 s\<lparr>doc_drafts := filter (\<lambda>r. \<not> hit r) (doc_drafts s)\<rparr>))"

subsection \<open>POST /@docs/draft/submit\<close>

record submit_body =
  sb_slug :: "string option"
  sb_coi_declaration :: "json option"
  sb_qualification :: "json option"

definition coi_data :: "json \<Rightarrow> json" where
  "coi_data coi =
     JObj [(''has_conflict'', json_or (jget coi ''has_conflict'') (JBool False)),
           (''declaration'', json_or (jget coi ''declaration'') (JStr [])),
           (''micro_enterprise_provision'',
              json_or (jget coi ''micro_enterprise_provision'') (JBool False)),
           (''same_author_reviewer'', json_or (jget coi ''same_author_reviewer'') (JBool False)),
           (''mitigation'', json_or (jget coi ''mitigation'') (JStr []))]"

definition qualification_data :: "string \<Rightarrow> json \<Rightarrow> json" where
  "qualification_data userId q =
     JObj [(''contributors'',
            json_or (jget q ''contributors'')
              (JArr [JObj [(''user_id'', JStr userId),
                           (''role'', JStr ''reviewer''),
                           (''basis'', json_or (jget q ''basis'') (JStr []))]]))]"

text \<open>The status check of a draft that the UPDATE did not match: 409 when one exists, else 404.\<close>

definition draft_status_conflict :: "db \<Rightarrow> string \<Rightarrow> (string \<Rightarrow> string) \<Rightarrow> response" where
  "draft_status_conflict s slug msg =
     (case filter (\<lambda>r. Some (dr_doc_id r) = slug_doc_id s slug) (doc_drafts s) of
        r # _ \<Rightarrow> error_response 409 (msg (dr_status r))
      | [] \<Rightarrow> error_response 404 ''No draft found for this document'')"

definition postDocDraftSubmit :: "ctx \<Rightarrow> submit_body \<Rightarrow> db \<Rightarrow> response \<times> db" where
  "postDocDraftSubmit c b s =
     (let userId = user_id c in
      if \<not> str_truthy (sb_slug b) then (error_response 400 ''Document slug required'', s)
      else
        let slug = str_or (sb_slug b) [];
            hit = (\<lambda>r. Some (dr_doc_id r) = slug_doc_id s slug \<and>
                        (dr_status r = ''draft'' \<or> dr_status r = ''rejected''));
            upd = (\<lambda>r. r\<lparr>dr_status := ''in_review'', dr_reviewer_notes := None,
                           dr_updated_by := userId\<rparr>)
        in case filter hit (doc_drafts s) of
             [] \<Rightarrow>
               (draft_status_conflict s slug
                  (\<lambda>st. ''Cannot submit: draft is currently '' @ [CHR 0x27] @ st @ [CHR 0x27]), s)
           | r # _ \<Rightarrow>
               let draftRow = upd r;
                   s1 = s\<lparr>doc_drafts := map (\<lambda>x. if hit x then upd x else x) (doc_drafts s)\<rparr>;
                   s3 = (case getQmsDocumentId s1 (dr_doc_id draftRow) of
                           None \<Rightarrow> s1
                         | Some qmsDocId \<Rightarrow>
                             if qmsDocId = [] then s1
                             else
                               let s2 = (if json_truthy (sb_coi_declaration b)
                                         then
                                           let coi = js_of (sb_coi_declaration b) in
                                           insertEvidence c qmsDocId None ''coi_declaration''
                                             (coi_data coi)
                                             (if json_truthy (jget coi ''has_conflict'')
                                              then ''COI declared: '' @
                                                     js_string_opt (jget coi ''declaration'')
                                              else ''No conflicts of interest declared'')
                                             userId s1
                                         else s1)
                               in if json_truthy (sb_qualification b)
                                  then
                                    let q = js_of (sb_qualification b) in
                                    insertEvidence c qmsDocId None ''qualification''
                                      (qualification_data userId q)
                                      (''Qualification: '' @
                                         js_string (json_or (jget q ''basis'')
                                                      (JStr ''(see evidence_data)'')))
                                      userId s2
                                  else s2)
               in (\<lparr>status = None,
                    body = JObj ((''@id'', draft_url c slug) # draft_json draftRow @
                                 [(''message'', JStr ''Draft submitted for review'')])\<rparr>, s3))"

subsection \<open>POST /@docs/draft/reject\<close>

record reject_body =
  rb_slug :: "string option"
  rb_notes :: "string option"
  rb_rejection :: "json option"

text \<open>\<open>rejection?.k\<close>\<close>

definition opt_get :: "json option \<Rightarrow> string \<Rightarrow> json option" where
  "opt_get x k = (case x of None \<Rightarrow> None | Some JNull \<Rightarrow> None | Some j \<Rightarrow> jget j k)"

definition postDocDraftReject :: "ctx \<Rightarrow> reject_body \<Rightarrow> db \<Rightarrow> response \<times> db" where
  "postDocDraftReject c b s =
     (let userId = user_id c in
      if \<not> str_truthy (rb_slug b) then (error_response 400 ''Document slug required'', s)
      else if \<not> str_truthy (rb_notes b)
      then (error_response 400 ''Reviewer notes are required when rejecting a draft'', s)
      else
        let slug = str_or (rb_slug b) [];
            notes = str_or (rb_notes b) [];
            hit = (\<lambda>r. Some (dr_doc_id r) = slug_doc_id s slug \<and> dr_status r = ''in_review'');
            upd = (\<lambda>r. r\<lparr>dr_status := ''rejected'', dr_reviewer_notes := Some notes,
                           dr_updated_by := userId\<rparr>)
        in case filter hit (doc_drafts s) of
             [] \<Rightarrow>
               (draft_status_conflict s slug
                  (\<lambda>st. ''Cannot reject: draft status is '' @ [CHR 0x27] @ st @ [CHR 0x27] @
                         '', expected '' @ [CHR 0x27] @ ''in_review'' @ [CHR 0x27]), s)
           | r # _ \<Rightarrow>
               let draftRow = upd r;
                   s1 = s\<lparr>doc_drafts := map (\<lambda>x. if hit x then upd x else x) (doc_drafts s)\<rparr>;
                   severity = json_or (opt_get (rb_rejection b) ''severity'') (JStr ''major'');
                   s2 = (case getQmsDocumentId s1 (dr_doc_id draftRow) of
                           None \<Rightarrow> s1
                         | Some qmsDocId \<Rightarrow>
                             if qmsDocId = [] then s1
                             else
                               insertEvidence c qmsDocId None ''rejection_feedback''
                                 (JObj [(''categories'',
                                           json_or (opt_get (rb_rejection b) ''categories'') (JArr [])),
                                        (''feedback'', JStr notes),
                                        (''severity'', severity),
                                        (''action_required'',
                                           json_or (opt_get (rb_rejection b) ''action_required'')
                                             (JStr []))])
                                 (''Rejected ('' @ js_string severity @ ''): '' @ notes)
                                 userId s1)
               in (\<lparr>status = None,
                    body = JObj ((''@id'', draft_url c slug) # draft_json draftRow @
                                 [(''message'', JStr ''Draft rejected and returned to author'')])\<rparr>,
                   s2))"

subsection \<open>POST /@docs/draft/approve\<close>

record approve_body =
  ab_slug :: "string option"
  ab_comment :: "string option"
  ab_checklist :: "json option"
  ab_approval_justification :: "json option"
  ab_change_classification :: "json option"

text \<open>What a handler can throw.\<close>

datatype js_error = TypeError string | Error string

text \<open>
  \<open>SELECT dr.*, d.id AS doc_id, ... FROM i18n.doc_drafts dr JOIN i18n.docs d
  ON d.id = dr.doc_id WHERE d.slug = ?\<close>
\<close>

definition draft_join :: "db \<Rightarrow> string \<Rightarrow> (draft \<times> doc) list" where
  "draft_join s slug =
     concat (map (\<lambda>dr. map (\<lambda>d. (dr, d))
                          (filter (\<lambda>d. d_id d = dr_doc_id dr \<and> d_slug d = slug) (docs s)))
                 (doc_drafts s))"

text \<open>
  \<open>INSERT INTO i18n.doc_versions ... ON CONFLICT (doc_id, version) DO NOTHING\<close>: the row is
  added unless the document already has a snapshot of that version.
\<close>

definition insert_version ::
  "ctx \<Rightarrow> nat \<Rightarrow> string \<Rightarrow> string option \<Rightarrow> string option \<Rightarrow> json \<Rightarrow> string option \<Rightarrow> string
     \<Rightarrow> db \<Rightarrow> db" where
  "insert_version c docId version title body_md frontmatter author userId s =
     (if \<exists>v \<in> set (doc_versions s). dv_doc_id v = docId \<and> dv_version v = version then s
      else s\<lparr>doc_versions := doc_versions s @
               [\<lparr>dv_doc_id = docId, dv_version = version, dv_title = title,
                 dv_body_md = body_md, dv_frontmatter = Some frontmatter,
                 dv_author = author, dv_published_by = userId, dv_published_at = now c,
                 dv_content_hash = map_option (sha256_hex (db_schema s)) body_md,
                 dv_superseded_at = None, dv_superseded_by = None,
                 dv_changes = None\<rparr>]\<rparr>)"

text \<open>
  \<open>UPDATE i18n.doc_versions SET superseded_at = now(), superseded_by = ?
  WHERE doc_id = ? AND superseded_at IS NULL AND version != ?\<close>
\<close>

definition supersede_versions :: "ctx \<Rightarrow> string \<Rightarrow> nat \<Rightarrow> db \<Rightarrow> db" where
  "supersede_versions c version docId s =
     s\<lparr>doc_versions :=
         map (\<lambda>v. if dv_doc_id v = docId \<and> dv_superseded_at v = None \<and> dv_version v \<noteq> version
                  then v\<lparr>dv_superseded_at := Some (now c), dv_superseded_by := Some version\<rparr>
                  else v)
             (doc_versions s)\<rparr>"

text \<open>
  \<open>UPDATE i18n.docs SET title = COALESCE(?, title), body_md = COALESCE(?, body_md),
  version = ?, frontmatter = COALESCE(?::jsonb, frontmatter), is_edited = true,
  edited_by = ?, updated_at = now() WHERE id = ?\<close>
\<close>

definition coalesce :: "'a option \<Rightarrow> 'a option \<Rightarrow> 'a option" where
  "coalesce x y = (case x of None \<Rightarrow> y | Some v \<Rightarrow> Some v)"

definition publish_draft :: "ctx \<Rightarrow> string \<Rightarrow> draft \<Rightarrow> nat \<Rightarrow> db \<Rightarrow> db" where
  "publish_draft c userId dr docId s =
     s\<lparr>docs :=
         map (\<lambda>d. if d_id d = docId
                  then d\<lparr>d_title := coalesce (dr_title dr) (d_title d),
                         d_body_md := coalesce (dr_body_md dr) (d_body_md d),
                         d_version := Some (dr_version dr),
                         d_frontmatter :=
                           coalesce (if json_truthy (dr_frontmatter dr) then dr_frontmatter dr
                                     else None)
                                    (d_frontmatter d),
                         d_is_edited := True,
                         d_edited_by := Some userId,
                         d_updated_at := now c\<rparr>
                  else d)
             (docs s)\<rparr>"

text \<open>
  The validation gate's query: the required evidence types of phase 1 and 2 that have no
  evidence row of the document that is not superseded.
\<close>

definition missing_evidence :: "db \<Rightarrow> string \<Rightarrow> evidence_type list" where
  "missing_evidence s qmsDocId =
     filter (\<lambda>ret. ret_required ret \<and> ret_phase ret \<le> 2 \<and>
                    \<not> (\<exists>de \<in> set (document_evidence s).
                          ev_document_id de = qmsDocId \<and>
                          ev_evidence_type de = ret_code ret \<and>
                          \<not> ev_is_superseded de))
            (ref_evidence_types s)"

definition missing_evidence_response :: "evidence_type list \<Rightarrow> response" where
  "missing_evidence_response rows =
     \<lparr>status = Some 422,
      body = JObj [(''error'',
                     JStr (''Cannot approve: required evidence is missing: '' @
                           join_with '', '' (map ret_label rows))),
                   (''missing_evidence'',
                     JArr (map (\<lambda>r. JObj [(''code'', JStr (ret_code r)),
                                           (''label'', JStr (ret_label r))]) rows))]\<rparr>"

text \<open>
  \<open>INSERT INTO qms.document_transitions (...) VALUES (?, 'approve', 'in_review',
  'effective', ?, ?, ?, ?) RETURNING id\<close>
\<close>

definition insert_approve_transition ::
  "ctx \<Rightarrow> string \<Rightarrow> string \<Rightarrow> string \<Rightarrow> string \<Rightarrow> string \<Rightarrow> db \<Rightarrow> nat \<times> db" where
  "insert_approve_transition c qmsDocId from_version to_version userId comment s =
     (next_id s,
      s\<lparr>document_transitions := document_transitions s @
          [\<lparr>tr_id = next_id s, tr_document_id = qmsDocId, tr_action = ''approve'',
            tr_from_status = Some ''in_review'', tr_to_status = Some ''effective'',
            tr_from_version = Some from_version, tr_to_version = Some to_version,
            tr_performed_by = userId, tr_comment = Some comment,
            tr_evidence_ref = None, tr_performed_at = now c\<rparr>],
        next_id := next_id s + 1\<rparr>)"

text \<open>
  \<open>(checklist.outcome?.decision || 'pass').toUpperCase()\<close>: a decision that is not a
  string has no such method.
\<close>

definition checklist_decision :: "ctx \<Rightarrow> json \<Rightarrow> js_error + string" where
  "checklist_decision c checklist =
     (case json_or (opt_get (jget checklist ''outcome'') ''decision'') (JStr ''pass'') of
        JStr d \<Rightarrow> Inr (toUpperCase c d)
      | _ \<Rightarrow> Inl (TypeError ''toUpperCase is not a function''))"

definition checklist_data :: "string \<Rightarrow> json \<Rightarrow> json" where
  "checklist_data userId checklist =
     JObj [(''frm_dc_004_version'', json_or (jget checklist ''frm_dc_004_version'') (JStr ''1.0'')),
           (''sections'', json_or (jget checklist ''sections'') (JObj [])),
           (''outcome'', json_or (jget checklist ''outcome'')
                           (JObj [(''decision'', JStr ''pass''),
                                  (''reviewer_signature'', JStr userId)]))]"

text \<open>The approval evidence linked to the transition; \<open>Inl\<close> when the checklist text throws.\<close>

definition approval_evidence ::
  "ctx \<Rightarrow> approve_body \<Rightarrow> string \<Rightarrow> nat \<Rightarrow> string \<Rightarrow> db \<Rightarrow> js_error + db" where
  "approval_evidence c b qmsDocId transitionId userId s =
     (case (if json_truthy (ab_checklist b)
            then (case checklist_decision c (js_of (ab_checklist b)) of
                    Inl e \<Rightarrow> Inl e
                  | Inr decision \<Rightarrow>
                      Inr (insertEvidence c qmsDocId (Some transitionId) ''self_review_checklist''
                             (checklist_data userId (js_of (ab_checklist b)))
                             (''FRM-DC-004 self-review: '' @ decision) userId s))
            else Inr s) of
        Inl e \<Rightarrow> Inl e
      | Inr s1 \<Rightarrow>
          let s2 = (if json_truthy (ab_approval_justification b)
                    then
                      let aj = js_of (ab_approval_justification b) in
                      insertEvidence c qmsDocId (Some transitionId) ''approval_justification''
                        (JObj [(''decision'', JStr ''approve''),
                               (''justification'', json_or (jget aj ''justification'') (JStr [])),
                               (''ai_assisted'', json_or (jget aj ''ai_assisted'') (JBool False)),
                               (''ai_disclosure'', json_or (jget aj ''ai_disclosure'') (JStr []))])
                        (''Approved: '' @
                           js_string (json_or (jget aj ''justification'')
                                        (JStr (str_or (ab_comment b) ''(no justification)''))))
                        userId s1
                    else s1);
              s3 = (if json_truthy (ab_change_classification b)
                    then
                      let cc = js_of (ab_change_classification b) in
                      insertEvidence c qmsDocId (Some transitionId) ''change_classification''
                        (JObj [(''classification'',
                                  json_or (jget cc ''classification'') (JStr ''PATCH'')),
                               (''rationale'', json_or (jget cc ''rationale'') (JStr []))])
                        (''Classification: '' @
                           js_string (json_or (jget cc ''classification'') (JStr ''PATCH'')) @
                           '' '' @ [CHR 0xE2, CHR 0x80, CHR 0x94] @ '' '' @
                           js_string (json_or (jget cc ''rationale'') (JStr [])))
                        userId s2
                    else s2)
          in Inr s3)"

text \<open>
  \<open>UPDATE qms.controlled_documents SET version = ?, status = 'effective',
  effective_date = CURRENT_DATE, updated_at = now() WHERE docs_id = ?\<close>
\<close>

definition set_effective :: "ctx \<Rightarrow> string \<Rightarrow> nat \<Rightarrow> db \<Rightarrow> db" where
  "set_effective c version docId s =
     s\<lparr>controlled_documents :=
         map (\<lambda>r. if r ''docs_id'' = Some (JNum (int docId))
                  then r(''version'' \<mapsto> JStr version,
                         ''status'' \<mapsto> JStr ''effective'',
                         ''effective_date'' \<mapsto> JNum (int (today c)),
                         ''updated_at'' \<mapsto> JNum (int (now c)))
                  else r)
             (controlled_documents s)\<rparr>"

text \<open>
  Step 5 of the handler, for a QMS-registered document: the gate, the transition, the
  evidence and the register. \<open>Some\<close> is what the handler returns or throws there.
\<close>

definition approve_qms ::
  "ctx \<Rightarrow> approve_body \<Rightarrow> draft \<Rightarrow> doc \<Rightarrow> db \<Rightarrow> (js_error + response) option \<times> db" where
  "approve_qms c b dr d s =
     (let userId = user_id c in
      case getQmsDocumentId s (d_id d) of
        None \<Rightarrow> (None, s)
      | Some qmsDocId \<Rightarrow>
          if qmsDocId = [] then (None, s)
          else
            let missing = missing_evidence s qmsDocId in
            if missing \<noteq> [] then (Some (Inr (missing_evidence_response missing)), s)
            else
              let (transitionId, s1) =
                    insert_approve_transition c qmsDocId (str_or (d_version d) ''0.0'')
                      (dr_version dr) userId
                      (str_or (ab_comment b) ''Approved via draft management'') s
              in case approval_evidence c b qmsDocId transitionId userId s1 of
                   Inl e \<Rightarrow> (Some (Inl e), s1)
                 | Inr s2 \<Rightarrow> (None, set_effective c (dr_version dr) (d_id d) s2))"

text \<open>
  Steps 2 to 4 of the handler: the snapshot of the current effective version, the
  superseding of the previous snapshots, and the copy of the draft into \<open>i18n.docs\<close>.
\<close>

definition approve_publish :: "ctx \<Rightarrow> draft \<Rightarrow> doc \<Rightarrow> db \<Rightarrow> db" where
  "approve_publish c dr d s =
     (let userId = user_id c;
          s1 = insert_version c (d_id d) (str_or (d_version d) ''0.0'') (d_title d) (d_body_md d)
                 (js_of (d_frontmatter d)) (d_author d) userId s;
          s2 = supersede_versions c (dr_version dr) (d_id d) s1
      in publish_draft c userId dr (d_id d) s2)"

text \<open>
  Steps 6 and 7: the snapshot of the new version, and
  \<open>DELETE FROM i18n.doc_drafts WHERE id = ?\<close>.
\<close>

definition approve_finish :: "ctx \<Rightarrow> draft \<Rightarrow> doc \<Rightarrow> db \<Rightarrow> db" where
  "approve_finish c dr d s =
     (let s5 = insert_version c (d_id d) (dr_version dr)
                 (str_or_opt (dr_title dr) (d_title d))
                 (str_or_opt (dr_body_md dr) (d_body_md d))
                 (if json_truthy (dr_frontmatter dr) then js_of (dr_frontmatter dr)
                  else js_of (d_frontmatter d))
                 (d_author d) (user_id c) s
      in s5\<lparr>doc_drafts := filter (\<lambda>r. dr_id r \<noteq> dr_id dr) (doc_drafts s5)\<rparr>)"

definition published_response :: "ctx \<Rightarrow> string \<Rightarrow> draft \<Rightarrow> doc \<Rightarrow> response" where
  "published_response c slug dr d =
     \<lparr>status = None,
      body = JObj [(''@id'', JStr (root_url c @ ''/@docs/view?slug='' @ encodeURIComponent c slug)),
                   (''message'', JStr (''Version '' @ dr_version dr @ '' published successfully'')),
                   (''version'', JStr (dr_version dr)),
                   (''previous_version'', JStr (str_or (d_version d) ''0.0''))]\<rparr>"

text \<open>
  The handler. Its result is what it returns or throws, and the state of the transaction
  at that moment. In the joined row \<open>d\<close> holds the document's columns as they were
  fetched in step 1 (\<open>current_title\<close>, \<open>current_version\<close>, ...).
\<close>

definition postDocDraftApprove ::
  "ctx \<Rightarrow> approve_body \<Rightarrow> db \<Rightarrow> (js_error + response) \<times> db" where
  "postDocDraftApprove c b s =
     (if \<not> str_truthy (ab_slug b) then (Inr (error_response 400 ''Document slug required''), s)
      else
        let slug = str_or (ab_slug b) [] in
        case draft_join s slug of
          [] \<Rightarrow> (Inr (error_response 404 ''No draft found for this document''), s)
        | (dr, d) # _ \<Rightarrow>
            if dr_status dr \<noteq> ''in_review''
            then (Inr (error_response 409
                         (''Cannot approve: draft status is '' @ [CHR 0x27] @ dr_status dr @
                          [CHR 0x27] @ '', expected '' @ [CHR 0x27] @ ''in_review'' @ [CHR 0x27])),
                  s)
            else
              case approve_qms c b dr d (approve_publish c dr d s) of
                (Some r, s4) \<Rightarrow> (r, s4)
              | (None, s4) \<Rightarrow>
                  (Inr (published_response c slug dr d), approve_finish c dr d s4))"

subsection \<open>Sequences of draft requests\<close>

datatype draft_request =
    PutDraft put_draft_body
  | SubmitDraft submit_body
  | RejectDraft reject_body
  | ApproveDraft approve_body
  | DeleteDraft "string option"

text \<open>The state of the transaction when the handler of a request has finished.\<close>

definition draft_request_state :: "ctx \<Rightarrow> draft_request \<Rightarrow> db \<Rightarrow> db" where
  "draft_request_state c rq s =
     (case rq of
        PutDraft b \<Rightarrow> snd (putDocDraft c b s)
      | SubmitDraft b \<Rightarrow> snd (postDocDraftSubmit c b s)
      | RejectDraft b \<Rightarrow> snd (postDocDraftReject c b s)
      | ApproveDraft b \<Rightarrow> snd (postDocDraftApprove c b s)
      | DeleteDraft q \<Rightarrow> snd (deleteDocDraft c q s))"

text \<open>
  Requests run one after the other, each in a transaction of its own that is committed
  or rolled back; the flag says which.
\<close>

fun run_draft_requests :: "(ctx \<times> draft_request \<times> bool) list \<Rightarrow> db \<Rightarrow> db" where
  "run_draft_requests [] s = s"
| "run_draft_requests ((c, rq, committed) # rqs) s =
     run_draft_requests rqs (if committed then draft_request_state c rq s else s)"

text \<open>At most one row of \<open>i18n.doc_drafts\<close> per \<open>doc_id\<close>.\<close>

definition one_draft_per_doc :: "db \<Rightarrow> bool" where
  "one_draft_per_doc s = (\<forall>k. length (filter (\<lambda>r. dr_doc_id r = k) (doc_drafts s)) \<le> 1)"

section \<open>Training sessions (routes/qms/training)\<close>

subsection \<open>Validators\<close>

text \<open>
  A validator reads the database and answers \<open>{ok: false, message}\<close> or
  \<open>{ok: true, data}\<close>. \<open>Other\<close> is a value with neither \<open>ok\<close> nor
  \<open>message\<close>, which the members of \<open>Object.prototype\<close> can return.
\<close>

datatype validation = Failed string | Passed json | Other

text \<open>\<open>ORDER BY recorded_at DESC LIMIT 1\<close>: a row with the latest \<open>recorded_at\<close>.\<close>

fun latest_evidence :: "evidence list \<Rightarrow> evidence option" where
  "latest_evidence [] = None"
| "latest_evidence (e # es) =
     (case latest_evidence es of
        None \<Rightarrow> Some e
      | Some l \<Rightarrow> if ev_recorded_at l > ev_recorded_at e then Some l else Some e)"

definition current_evidence :: "db \<Rightarrow> string \<Rightarrow> string \<Rightarrow> evidence list" where
  "current_evidence s qmsDocId ty =
     filter (\<lambda>e. ev_document_id e = qmsDocId \<and> ev_evidence_type e = ty \<and> \<not> ev_is_superseded e)
            (document_evidence s)"

definition evidence_found :: "evidence \<Rightarrow> validation" where
  "evidence_found e =
     Passed (JObj [(''evidence_id'', JNum (int (ev_id e))),
                   (''recorded_at'', JNum (int (ev_recorded_at e)))])"

definition draft_exists :: "ctx \<Rightarrow> db \<Rightarrow> nat \<Rightarrow> validation" where
  "draft_exists c s docsId =
     (case filter (\<lambda>r. dr_doc_id r = docsId) (doc_drafts s) of
        [] \<Rightarrow> Failed ''No draft found. Open the document editor, write content, and save.''
      | draft # _ \<Rightarrow>
          if \<not> str_truthy (dr_body_md draft) \<or> js_length (trim c (str_or (dr_body_md draft) [])) < 20
          then Failed
                 ''Draft content is too short. Write at least a paragraph of meaningful content.''
          else Passed (JObj [(''draft_id'', JNum (int (dr_id draft))),
                             (''version'', JStr (dr_version draft)),
                             (''status'', JStr (dr_status draft))]))"

definition evidence_justification :: "db \<Rightarrow> string \<Rightarrow> validation" where
  "evidence_justification s qmsDocId =
     (case latest_evidence (current_evidence s qmsDocId ''justification'') of
        None \<Rightarrow>
          Failed (''No justification evidence found. Save the draft again with a '' @
                  ''justification (what, why, and scope).'')
      | Some e \<Rightarrow> evidence_found e)"

definition draft_in_review :: "db \<Rightarrow> nat \<Rightarrow> validation" where
  "draft_in_review s docsId =
     (case filter (\<lambda>r. dr_doc_id r = docsId) (doc_drafts s) of
        [] \<Rightarrow> Failed ''No draft found. The draft may have already been approved.''
      | r # _ \<Rightarrow>
          if dr_status r \<noteq> ''in_review''
          then Failed (''Draft status is '' @ [CHR 0x27] @ dr_status r @ [CHR 0x27] @
                       '', expected '' @ [CHR 0x27] @ ''in_review'' @ [CHR 0x27] @
                       ''. Submit the draft for review.'')
          else Passed (JObj [(''draft_id'', JNum (int (dr_id r))),
                             (''status'', JStr ''in_review'')]))"

definition evidence_coi_qualification :: "db \<Rightarrow> string \<Rightarrow> validation" where
  "evidence_coi_qualification s qmsDocId =
     (let rows = filter (\<lambda>e. ev_document_id e = qmsDocId \<and>
                             (ev_evidence_type e = ''coi_declaration'' \<or>
                              ev_evidence_type e = ''qualification'') \<and>
                             \<not> ev_is_superseded e)
                        (document_evidence s);
          types = map ev_evidence_type rows;
          missing = (if ''coi_declaration'' \<in> set types then [] else [''COI declaration'']) @
                    (if ''qualification'' \<in> set types then [] else [''qualification''])
      in if missing \<noteq> []
         then Failed (''Missing evidence: '' @ join_with '', '' missing @
                      ''. Submit the draft with all required fields.'')
         else Passed (JObj [(''evidence_count'', JNum (int (length rows)))]))"

definition evidence_checklist :: "db \<Rightarrow> string \<Rightarrow> validation" where
  "evidence_checklist s qmsDocId =
     (case latest_evidence (current_evidence s qmsDocId ''self_review_checklist'') of
        None \<Rightarrow>
          Failed (''No self-review checklist evidence found. Complete the FRM-DC-004 '' @
                  ''checklist and approve the document.'')
      | Some e \<Rightarrow> evidence_found e)"

definition document_effective :: "db \<Rightarrow> string \<Rightarrow> validation" where
  "document_effective s qmsDocId =
     (case filter (\<lambda>r. r ''document_id'' = Some (JStr qmsDocId)) (controlled_documents s) of
        [] \<Rightarrow> Failed ''Training document not found in QMS register.''
      | r # _ \<Rightarrow>
          if col r ''status'' \<noteq> JStr ''effective''
          then Failed (''Document status is '' @ [CHR 0x27] @ js_string (col r ''status'') @
                       [CHR 0x27] @ '', expected '' @ [CHR 0x27] @ ''effective'' @ [CHR 0x27] @
                       ''. Complete the approval step.'')
          else Passed (JObj [(''status'', JStr ''effective''),
                             (''version'', col r ''version''),
                             (''effective_date'', col r ''effective_date'')]))"

text \<open>
  \<open>validators[stepDef.validation]\<close>, called as \<open>validatorFn(knex, trx,
  { docsId, qmsDocId })\<close>. \<open>validators\<close> is an object literal, so for a name that is
  not one of its six functions the lookup finds the member of \<open>Object.prototype\<close> of
  that name, if there is one, and is \<open>undefined\<close> (\<open>None\<close>) otherwise. Called as a
  plain function, with \<open>this\<close> undefined:
  \<^item> \<open>toString\<close> returns the string \<open>[object Undefined]\<close>, and \<open>constructor\<close>
    (the function \<open>Object\<close>) returns its first argument, the knex instance; neither
    value has a property \<open>ok\<close> or \<open>message\<close>;
  \<^item> the other functions convert \<open>this\<close> to an object and throw a TypeError;
  \<^item> \<open>__proto__\<close> is \<open>Object.prototype\<close> itself, which is truthy and not a
    function, so the call throws a TypeError.

  The model carries the kind of the error; the text of its message is the engine's.
\<close>

definition prototype_returning :: "string list" where
  "prototype_returning = [''constructor'', ''toString'']"

definition prototype_throwing :: "string list" where
  "prototype_throwing =
     [''__defineGetter__'', ''__defineSetter__'', ''hasOwnProperty'', ''__lookupGetter__'',
      ''__lookupSetter__'', ''isPrototypeOf'', ''propertyIsEnumerable'', ''toLocaleString'',
      ''valueOf'']"

definition validators ::
  "string \<Rightarrow> (ctx \<Rightarrow> db \<Rightarrow> nat \<Rightarrow> string \<Rightarrow> js_error + validation) option" where
  "validators name =
     (if name = ''draft_exists''
      then Some (\<lambda>c s docsId qmsDocId. Inr (draft_exists c s docsId))
      else if name = ''evidence_justification''
      then Some (\<lambda>c s docsId qmsDocId. Inr (evidence_justification s qmsDocId))
      else if name = ''draft_in_review''
      then Some (\<lambda>c s docsId qmsDocId. Inr (draft_in_review s docsId))
      else if name = ''evidence_coi_qualification''
      then Some (\<lambda>c s docsId qmsDocId. Inr (evidence_coi_qualification s qmsDocId))
      else if name = ''evidence_checklist''
      then Some (\<lambda>c s docsId qmsDocId. Inr (evidence_checklist s qmsDocId))
      else if name = ''document_effective''
      then Some (\<lambda>c s docsId qmsDocId. Inr (document_effective s qmsDocId))
      else if name \<in> set prototype_returning
      then Some (\<lambda>c s docsId qmsDocId. Inr Other)
      else if name \<in> set prototype_throwing
      then Some (\<lambda>c s docsId qmsDocId.
                   Inl (TypeError ''Cannot convert undefined or null to object''))
      else if name = ''__proto__''
      then Some (\<lambda>c s docsId qmsDocId. Inl (TypeError ''validatorFn is not a function''))
      else None)"

subsection \<open>POST /@qms/training/session/validate-step\<close>

text \<open>
  The body: \<open>session_id\<close> is a number, or \<open>None\<close> when it is absent or null;
  \<open>step_number\<close> is any JSON value, \<open>None\<close> when the body does not define it. The
  steps of a module are objects \<open>{step, key, validation}\<close> of a number and two strings.
\<close>

record validate_body =
  vb_session_id :: "nat option"
  vb_step_number :: "json option"

text \<open>
  \<open>SELECT ts.*, tm.steps AS module_steps, tm.grants_roles, tm.module_code, tm.title
  FROM qms.training_sessions ts JOIN qms.training_modules tm ON tm.id = ts.module_id
  WHERE ts.id = ?\<close>
\<close>

definition session_join :: "db \<Rightarrow> nat \<Rightarrow> (training_session \<times> training_module) list" where
  "session_join s session_id =
     concat (map (\<lambda>ts. map (\<lambda>tm. (ts, tm))
                          (filter (\<lambda>tm. tm_id tm = ts_module_id ts) (training_modules s)))
                 (filter (\<lambda>ts. ts_id ts = session_id) (training_sessions s)))"

text \<open>
  \<open>SELECT d.id AS docs_id, cd.document_id AS qms_doc_id FROM qms.controlled_documents cd
  JOIN i18n.docs d ON d.id = cd.docs_id WHERE cd.document_id = ?\<close>
\<close>

definition training_doc_lookup :: "db \<Rightarrow> string option \<Rightarrow> (nat \<times> string) list" where
  "training_doc_lookup s training_doc_id =
     (case training_doc_id of
        None \<Rightarrow> []
      | Some docId \<Rightarrow>
          concat (map (\<lambda>cd. map (\<lambda>d. (d_id d, docId))
                               (filter (\<lambda>d. cd ''docs_id'' = Some (JNum (int (d_id d)))) (docs s)))
                      (filter (\<lambda>cd. cd ''document_id'' = Some (JStr docId))
                              (controlled_documents s))))"

text \<open>
  \<open>INSERT INTO qms.training_step_completions ... ON CONFLICT (session_id, step_number)
  DO NOTHING\<close>
\<close>

definition record_completion :: "nat \<Rightarrow> int \<Rightarrow> string \<Rightarrow> string \<Rightarrow> json \<Rightarrow> db \<Rightarrow> db" where
  "record_completion session_id step_number step_key userId data s =
     (if \<exists>x \<in> set (training_step_completions s).
           sc_session_id x = session_id \<and> sc_step_number x = step_number
      then s
      else s\<lparr>training_step_completions := training_step_completions s @
               [\<lparr>sc_session_id = session_id, sc_step_number = step_number,
                 sc_step_key = step_key, sc_validated_by = userId,
                 sc_validation_data = data\<rparr>]\<rparr>)"

text \<open>
  \<open>INSERT INTO qms.user_roles (user_id, role_code, granted_by) VALUES (?, ?, ?)
  ON CONFLICT (user_id, role_code) DO UPDATE SET active = true,
  granted_by = EXCLUDED.granted_by, granted_at = now()\<close>. An inserted row takes
  \<open>active\<close> from the column's default.
\<close>

definition grant_role :: "ctx \<Rightarrow> string \<Rightarrow> string \<Rightarrow> db \<Rightarrow> db" where
  "grant_role c userId roleCode s =
     (if \<exists>x \<in> set (user_roles s). ur_user_id x = userId \<and> ur_role_code x = roleCode
      then s\<lparr>user_roles :=
               map (\<lambda>x. if ur_user_id x = userId \<and> ur_role_code x = roleCode
                        then x\<lparr>ur_active := True, ur_granted_by := ''training-system'',
                               ur_granted_at := now c\<rparr>
                        else x)
                   (user_roles s)\<rparr>
      else s\<lparr>user_roles := user_roles s @
               [\<lparr>ur_user_id = userId, ur_role_code = roleCode,
                 ur_granted_by = ''training-system'', ur_granted_at = now c,
                 ur_active = user_role_active_default (db_schema s)\<rparr>]\<rparr>)"

text \<open>The completion flow of the last step: certificate, session, roles.\<close>

definition complete_session ::
  "ctx \<Rightarrow> nat \<Rightarrow> int \<Rightarrow> training_session \<Rightarrow> training_module \<Rightarrow> db \<Rightarrow> nat \<times> db" where
  "complete_session c session_id step_number ts tm s =
     (let userId = user_id c;
          fullname = (case filter (\<lambda>u. u_id u = userId) (users s) of
                        [] \<Rightarrow> Some userId
                      | u # _ \<Rightarrow> u_fullname u);
          certificateId = next_id s;
          s1 = s\<lparr>training_certificates := training_certificates s @
                   [\<lparr>ce_certificate_id = certificateId, ce_session_id = session_id,
                     ce_user_id = userId, ce_user_fullname = fullname,
                     ce_module_code = tm_module_code tm, ce_module_title = tm_title tm,
                     ce_qualified_for = tm_grants_roles tm\<rparr>],
                 next_id := next_id s + 1\<rparr>;
          s2 = s1\<lparr>training_sessions :=
                    map (\<lambda>x. if ts_id x = session_id
                             then x\<lparr>ts_status := ''completed'',
                                    ts_current_step := step_number + 1,
                                    ts_completed_at := Some (now c),
                                    ts_certificate_id := Some certificateId\<rparr>
                             else x)
                        (training_sessions s1)\<rparr>;
          s3 = fold (grant_role c userId)
                    (case tm_grants_roles tm of None \<Rightarrow> [] | Some roles \<Rightarrow> roles) s2
      in (certificateId, s3))"

definition validate_url :: "ctx \<Rightarrow> json" where
  "validate_url c = JStr (root_url c @ ''/@qms/training/session/validate-step'')"

text \<open>
  The step passed: the completion is recorded, and the session is completed (last step)
  or advanced.
\<close>

definition step_passed ::
  "ctx \<Rightarrow> nat \<Rightarrow> int \<Rightarrow> training_session \<Rightarrow> training_module \<Rightarrow> step_def \<Rightarrow> json \<Rightarrow> db
     \<Rightarrow> response \<times> db" where
  "step_passed c session_id step_number ts tm stepDef data s =
     (let s1 = record_completion session_id step_number (sd_key stepDef) (user_id c)
                 (json_or (Some data) (JObj [])) s
      in if step_number = int (length (tm_steps tm))
         then
           let (certificateId, s2) = complete_session c session_id step_number ts tm s1
           in (\<lparr>status = None,
                body = JObj [(''@id'', validate_url c),
                             (''ok'', JBool True),
                             (''step_number'', JNum step_number),
                             (''step_key'', JStr (sd_key stepDef)),
                             (''completed'', JBool True),
                             (''certificate_id'', JNum (int certificateId)),
                             (''message'',
                                JStr (''Congratulations! All steps completed. '' @
                                      ''Certificate issued.''))]\<rparr>,
               s2)
         else
           (\<lparr>status = None,
             body = JObj [(''@id'', validate_url c),
                          (''ok'', JBool True),
                          (''step_number'', JNum step_number),
                          (''step_key'', JStr (sd_key stepDef)),
                          (''completed'', JBool False),
                          (''current_step'', JNum (step_number + 1)),
                          (''message'',
                             JStr (''Step '' @ show_int step_number @
                                   '' validated. Proceed to step '' @
                                   show_int (step_number + 1) @ ''.''))]\<rparr>,
            s1\<lparr>training_sessions :=
                 map (\<lambda>x. if ts_id x = session_id
                          then x\<lparr>ts_current_step := step_number + 1\<rparr> else x)
                     (training_sessions s1)\<rparr>))"

text \<open>
  The step once the session is found to be the user's, in progress and at this step. An
  answer that is not \<open>ok\<close> is returned with its \<open>message\<close>; a property whose value
  is \<open>undefined\<close> is left out of the body, as it is in the JSON that is sent.
\<close>

definition run_step ::
  "ctx \<Rightarrow> nat \<Rightarrow> int \<Rightarrow> training_session \<Rightarrow> training_module \<Rightarrow> db
     \<Rightarrow> (js_error + response) \<times> db" where
  "run_step c session_id step_number ts tm s =
     (case filter (\<lambda>sd. sd_step sd = step_number) (tm_steps tm) of
        [] \<Rightarrow>
          (Inr (error_response 400
                  (''Step '' @ show_int step_number @ '' not defined in module'')), s)
      | stepDef # _ \<Rightarrow>
          case training_doc_lookup s (ts_training_doc_id ts) of
            [] \<Rightarrow> (Inr (error_response 500 ''Training document not found in database''), s)
          | (docsId, qmsDocId) # _ \<Rightarrow>
              case validators (sd_validation stepDef) of
                None \<Rightarrow>
                  (Inr (error_response 500 (''Unknown validator: '' @ sd_validation stepDef)), s)
              | Some validatorFn \<Rightarrow>
                  case validatorFn c s docsId qmsDocId of
                    Inl e \<Rightarrow> (Inl e, s)
                  | Inr (Failed message) \<Rightarrow>
                      (Inr \<lparr>status = None,
                            body = JObj [(''@id'', validate_url c),
                                         (''ok'', JBool False),
                                         (''step_number'', JNum step_number),
                                         (''step_key'', JStr (sd_key stepDef)),
                                         (''message'', JStr message)]\<rparr>, s)
                  | Inr Other \<Rightarrow>
                      (Inr \<lparr>status = None,
                            body = JObj [(''@id'', validate_url c),
                                         (''ok'', JBool False),
                                         (''step_number'', JNum step_number),
                                         (''step_key'', JStr (sd_key stepDef))]\<rparr>, s)
                  | Inr (Passed data) \<Rightarrow>
                      (case step_passed c session_id step_number ts tm stepDef data s of
                         (resp, s') \<Rightarrow> (Inr resp, s')))"

text \<open>
  The handler: what it returns or throws, and the state of the transaction. Past the
  check \<open>step_number !== session.current_step\<close> the step number is the session's
  current step, a number.
\<close>

definition postTrainingValidateStep ::
  "ctx \<Rightarrow> validate_body \<Rightarrow> db \<Rightarrow> (js_error + response) \<times> db" where
  "postTrainingValidateStep c b s =
     (case (vb_session_id b, vb_step_number b) of
        (None, _) \<Rightarrow> (Inr (error_response 400 ''session_id and step_number are required''), s)
      | (Some _, None) \<Rightarrow>
          (Inr (error_response 400 ''session_id and step_number are required''), s)
      | (Some session_id, Some step_number) \<Rightarrow>
          if session_id = 0
          then (Inr (error_response 400 ''session_id and step_number are required''), s)
          else
            case session_join s session_id of
              [] \<Rightarrow> (Inr (error_response 404 ''Training session not found''), s)
            | (ts, tm) # _ \<Rightarrow>
                if ts_user_id ts \<noteq> user_id c
                then (Inr (error_response 403 ''This session belongs to another user''), s)
                else if ts_status ts \<noteq> ''in_progress''
                then (Inr (error_response 409
                             (''Session is '' @ [CHR 0x27] @ ts_status ts @ [CHR 0x27] @
                              '', cannot validate steps'')), s)
                else if step_number \<noteq> JNum (ts_current_step ts)
                then (Inr (error_response 409
                             (''Expected step '' @ show_int (ts_current_step ts) @
                              '', got step '' @ js_string step_number @
                              ''. Complete steps in order.'')), s)
                else run_step c session_id (ts_current_step ts) ts tm s)"

subsection \<open>POST /@qms/training/session/abandon\<close>



section \<open>The QMS register (routes/qms/qms)\<close>

text \<open>\<open>DOC_ID_RE = /^[A-Za-z0-9][A-Za-z0-9._-]{0,99}$/\<close>\<close>

definition is_alnum :: "char \<Rightarrow> bool" where
  "is_alnum ch =
     (let n = of_char ch :: nat
      in (48 \<le> n \<and> n \<le> 57) \<or> (65 \<le> n \<and> n \<le> 90) \<or> (97 \<le> n \<and> n \<le> 122))"

definition DOC_ID_RE :: "string \<Rightarrow> bool" where
  "DOC_ID_RE s =
     (case s of
        [] \<Rightarrow> False
      | x # xs \<Rightarrow>
          is_alnum x \<and> length xs \<le> 99 \<and>
          list_all (\<lambda>ch. is_alnum ch \<or> ch = CHR ''.'' \<or> ch = CHR ''_'' \<or> ch = CHR ''-'') xs)"

text \<open>A text column as JavaScript reads it into a string parameter; NULL is \<open>None\<close>.\<close>

definition col_text :: "cdoc \<Rightarrow> string \<Rightarrow> string option" where
  "col_text r k = (case r k of None \<Rightarrow> None | Some JNull \<Rightarrow> None | Some j \<Rightarrow> Some (js_string j))"

definition register_url :: "ctx \<Rightarrow> string \<Rightarrow> string" where
  "register_url c document_id = root_url c @ ''/@qms/register/'' @ encodeURIComponent c document_id"

text \<open>The columns of a register row, as \<open>RETURNING\<close> lists them.\<close>

definition cdoc_json :: "cdoc \<Rightarrow> (string \<times> json) list" where
  "cdoc_json r =
     map (\<lambda>k. (k, col r k))
       [''id'', ''document_id'', ''title'', ''document_type'', ''domain_code'', ''version'',
        ''status'', ''classification'', ''effective_date'', ''next_review_date'', ''owner'',
        ''author'', ''reviewer'', ''approver'', ''implements'', ''retention_years'',
        ''retention_basis'', ''location'', ''docs_id'', ''body_md'', ''notes'', ''created_at'',
        ''updated_at'']"

subsection \<open>PUT /@qms/register/:document_id\<close>

definition allowedFields :: "string list" where
  "allowedFields =
     [''title'', ''document_type'', ''domain_code'', ''version'', ''status'',
      ''classification'', ''effective_date'', ''next_review_date'', ''owner'', ''author'',
      ''reviewer'', ''approver'', ''implements'', ''retention_years'', ''retention_basis'',
      ''location'', ''docs_id'', ''body_md'', ''notes'']"

text \<open>
  The SET clause: for each allowed field the body defines, the column and its value, an
  empty string as NULL.
\<close>

definition set_clauses :: "(string \<times> json) list \<Rightarrow> (string \<times> json) list" where
  "set_clauses req_body =
     concat (map (\<lambda>field. case map_of req_body field of
                             None \<Rightarrow> []
                           | Some v \<Rightarrow> [(field, if v = JStr [] then JNull else v)])
                 allowedFields)"

definition putQmsDocument :: "ctx \<Rightarrow> string \<Rightarrow> (string \<times> json) list \<Rightarrow> db \<Rightarrow> response \<times> db" where
  "putQmsDocument c document_id req_body s =
     (if \<not> DOC_ID_RE document_id then (error_response 400 ''Invalid document ID format'', s)
      else
        case filter (\<lambda>r. r ''document_id'' = Some (JStr document_id)) (controlled_documents s) of
          [] \<Rightarrow> (error_response 404 ''Document not found'', s)
        | existing # _ \<Rightarrow>
            let sets = set_clauses req_body in
            if sets = [] then (error_response 400 ''No fields to update'', s)
            else
              let upd = (\<lambda>r. fold (\<lambda>(field, v) r'. r'(field \<mapsto> v)) sets r)
              in (\<lparr>status = None,
                   body = JObj ((''@id'', JStr (register_url c document_id)) #
                                cdoc_json (upd existing))\<rparr>,
                  s\<lparr>controlled_documents :=
                      map (\<lambda>r. if r ''document_id'' = Some (JStr document_id) then upd r else r)
                          (controlled_documents s)\<rparr>))"

subsection \<open>POST /@qms/register/:document_id/transition\<close>

record transition_body =
  tb_action :: "string option"
  tb_to_status :: "string option"
  tb_to_version :: "string option"
  tb_comment :: "string option"
  tb_evidence_ref :: "string option"

definition transition_json :: "transition \<Rightarrow> json" where
  "transition_json t =
     JObj [(''id'', JNum (int (tr_id t))),
           (''document_id'', JStr (tr_document_id t)),
           (''action'', JStr (tr_action t)),
           (''from_status'', js_text (tr_from_status t)),
           (''to_status'', js_text (tr_to_status t)),
           (''from_version'', js_text (tr_from_version t)),
           (''to_version'', js_text (tr_to_version t)),
           (''performed_by'', JStr (tr_performed_by t)),
           (''comment'', js_text (tr_comment t)),
           (''evidence_ref'', js_text (tr_evidence_ref t)),
           (''performed_at'', JNum (int (tr_performed_at t)))]"

text \<open>\<open>x || null\<close>\<close>

definition or_null :: "string option \<Rightarrow> string option" where
  "or_null x = (if str_truthy x then x else None)"

definition postQmsTransition :: "ctx \<Rightarrow> string \<Rightarrow> transition_body \<Rightarrow> db \<Rightarrow> response \<times> db" where
  "postQmsTransition c document_id b s =
     (if \<not> DOC_ID_RE document_id then (error_response 400 ''Invalid document ID format'', s)
      else if \<not> str_truthy (tb_action b) then (error_response 400 ''Required field: action'', s)
      else
        case filter (\<lambda>r. r ''document_id'' = Some (JStr document_id)) (controlled_documents s) of
          [] \<Rightarrow> (error_response 404 ''Document not found'', s)
        | current # _ \<Rightarrow>
            let performed_by = user_id c;
                row = \<lparr>tr_id = next_id s, tr_document_id = document_id,
                       tr_action = str_or (tb_action b) [],
                       tr_from_status = col_text current ''status'',
                       tr_to_status = str_or_opt (tb_to_status b) (col_text current ''status''),
                       tr_from_version = col_text current ''version'',
                       tr_to_version = str_or_opt (tb_to_version b) (col_text current ''version''),
                       tr_performed_by = performed_by,
                       tr_comment = or_null (tb_comment b),
                       tr_evidence_ref = or_null (tb_evidence_ref b),
                       tr_performed_at = now c\<rparr>;
                s1 = s\<lparr>document_transitions := document_transitions s @ [row],
                       next_id := next_id s + 1\<rparr>;
                upd = (\<lambda>r.
                   let r1 = (if str_truthy (tb_to_status b)
                             then r(''status'' \<mapsto> JStr (str_or (tb_to_status b) [])) else r);
                       r2 = (if str_truthy (tb_to_version b)
                             then r1(''version'' \<mapsto> JStr (str_or (tb_to_version b) [])) else r1)
                   in if tb_to_status b = Some ''effective''
                      then r2(''effective_date'' \<mapsto> JNum (int (today c))) else r2);
                s2 = (if str_truthy (tb_to_status b) \<or> str_truthy (tb_to_version b)
                      then s1\<lparr>controlled_documents :=
                                map (\<lambda>r. if r ''document_id'' = Some (JStr document_id)
                                         then upd r else r)
                                    (controlled_documents s1)\<rparr>
                      else s1)
            in (\<lparr>status = Some 201,
                 body = JObj [(''@id'', JStr (register_url c document_id @ ''/transition'')),
                              (''transition'', transition_json row)]\<rparr>, s2))"

section \<open>Saving a document with a version bump (routes/docs/docs)\<close>

subsection \<open>Numbers\<close>

text \<open>
  JavaScript numbers are IEEE doubles. The model covers the values \<open>Number\<close> gives for a
  string of decimal digits up to \<open>2^53\<close>, which doubles hold exactly and print as decimal
  digits; the empty string converts to 0. \<open>Number\<close> of any other string (signs, blanks,
  exponents, hexadecimal, larger values, text) is outside the model: \<open>None\<close>.
\<close>

definition is_digit :: "char \<Rightarrow> bool" where
  "is_digit ch = (let n = of_char ch :: nat in 48 \<le> n \<and> n \<le> 57)"

definition digits_value :: "string \<Rightarrow> nat" where
  "digits_value ds = foldl (\<lambda>acc ch. acc * 10 + (of_char ch - 48)) 0 ds"

definition Number :: "string \<Rightarrow> nat option" where
  "Number p =
     (if list_all is_digit p \<and> digits_value p \<le> 2 ^ 53 then Some (digits_value p) else None)"

text \<open>
  \<open>x + 1\<close> on such a value: \<open>2^53 + 1\<close> is not a double, and the sum rounds back to
  \<open>2^53\<close>.
\<close>

definition js_succ :: "nat \<Rightarrow> nat" where
  "js_succ n = (if n < 2 ^ 53 then n + 1 else n)"

text \<open>\<open>String.prototype.split\<close> on a one-character separator.\<close>

fun split_on :: "char \<Rightarrow> string \<Rightarrow> string list" where
  "split_on c [] = [[]]"
| "split_on c (x # xs) =
     (if x = c then [] # split_on c xs
      else (case split_on c xs of p # ps \<Rightarrow> (x # p) # ps | [] \<Rightarrow> [[x]]))"

subsection \<open>bumpVersion\<close>

text \<open>
  The parts are converted, padded with zeros to three, and the first three are read. The
  result is the new version string or the thrown error; \<open>None\<close> when a part that the
  result prints is outside the modelled numbers.
\<close>

definition pad3 :: "nat option list \<Rightarrow> nat option list" where
  "pad3 parts = parts @ replicate (3 - length parts) (Some 0)"

definition bumpVersion :: "string \<Rightarrow> string \<Rightarrow> (js_error + string) option" where
  "bumpVersion version bump =
     (let parts = pad3 (map Number (split_on CHR ''.'' version));
          major = parts ! 0; minor = parts ! 1; patch = parts ! 2
      in if bump = ''major''
         then (case major of
                 None \<Rightarrow> None
               | Some ma \<Rightarrow> Some (Inr (show_nat (js_succ ma) @ ''.0.0'')))
         else if bump = ''minor''
         then (case (major, minor) of
                 (Some ma, Some mi) \<Rightarrow>
                   Some (Inr (show_nat ma @ ''.'' @ show_nat (js_succ mi) @ ''.0''))
               | _ \<Rightarrow> None)
         else if bump = ''patch''
         then (case (major, minor, patch) of
                 (Some ma, Some mi, Some pa) \<Rightarrow>
                   Some (Inr (show_nat ma @ ''.'' @ show_nat mi @ ''.'' @ show_nat (js_succ pa)))
               | _ \<Rightarrow> None)
         else Some (Inl (Error (''Invalid bump type: '' @ bump))))"

subsection \<open>POST /@docs/save\<close>

record save_body =
  sv_doc_id :: "nat option"
  sv_body_md :: "string option"
  sv_version_bump :: "string option"
  sv_change_summary :: "string option"

text \<open>\<open>{ ...(doc.frontmatter || {}), version: newVersion }\<close>\<close>

definition spread :: "json \<Rightarrow> (string \<times> json) list" where
  "spread j =
     (case j of
        JObj kvs \<Rightarrow> kvs
      | JArr xs \<Rightarrow> zip (map show_nat [0..<length xs]) xs
      | JStr t \<Rightarrow> zip (map show_nat [0..<length t]) (map (\<lambda>ch. JStr [ch]) t)
      | _ \<Rightarrow> [])"

definition set_key :: "string \<Rightarrow> json \<Rightarrow> (string \<times> json) list \<Rightarrow> (string \<times> json) list" where
  "set_key k v kvs =
     (if k \<in> fst ` set kvs then map (\<lambda>(k', v'). if k' = k then (k', v) else (k', v')) kvs
      else kvs @ [(k, v)])"

definition doc_json :: "doc \<Rightarrow> (string \<times> json) list" where
  "doc_json d =
     [(''id'', JNum (int (d_id d))),
      (''slug'', JStr (d_slug d)),
      (''title'', js_text (d_title d)),
      (''body_md'', js_text (d_body_md d)),
      (''version'', js_text (d_version d)),
      (''status'', js_text (d_status d)),
      (''frontmatter'', js_of (d_frontmatter d)),
      (''author'', js_text (d_author d)),
      (''is_edited'', JBool (d_is_edited d)),
      (''edited_by'', js_text (d_edited_by d)),
      (''updated_at'', JNum (int (d_updated_at d)))]"

text \<open>
  The statements after the version is computed. The triggers of \<open>i18n.docs\<close> that the
  handler's comments mention belong to the database and are not part of the sources; the
  statements are modelled as they are written.
\<close>

definition save_document :: "ctx \<Rightarrow> nat \<Rightarrow> string \<Rightarrow> string \<Rightarrow> string \<Rightarrow> doc \<Rightarrow> string \<Rightarrow> db
    \<Rightarrow> response \<times> db" where
  "save_document c doc_id body_md change_summary username doc newVersion s =
     (let updatedFrontmatter =
            JObj (set_key ''version'' (JStr newVersion)
                    (spread (json_or (d_frontmatter doc) (JObj []))));
          s1 = s\<lparr>docs := map (\<lambda>d. if d_id d = doc_id
                                  then d\<lparr>d_body_md := Some body_md,
                                         d_version := Some newVersion,
                                         d_frontmatter := Some updatedFrontmatter,
                                         d_is_edited := True,
                                         d_edited_by := Some username,
                                         d_updated_at := now c\<rparr>
                                  else d)
                             (docs s)\<rparr>;
          s2 = s1\<lparr>doc_versions :=
                    map (\<lambda>v. if dv_doc_id v = doc_id \<and> dv_version v = newVersion \<and>
                                 dv_changes v = None
                             then v\<lparr>dv_changes := Some change_summary\<rparr> else v)
                        (doc_versions s1)\<rparr>;
          qmsDocumentId = getQmsDocumentId s2 doc_id;
          s3 = (if str_truthy qmsDocumentId
                then s2\<lparr>controlled_documents :=
                          map (\<lambda>r. if r ''docs_id'' = Some (JNum (int doc_id))
                                   then r(''version'' \<mapsto> JStr newVersion) else r)
                              (controlled_documents s2),
                        document_transitions := document_transitions s2 @
                          [\<lparr>tr_id = next_id s2,
                            tr_document_id = str_or qmsDocumentId [],
                            tr_action = ''content_update'', tr_from_status = None,
                            tr_to_status = None, tr_from_version = d_version doc,
                            tr_to_version = Some newVersion, tr_performed_by = username,
                            tr_comment = Some change_summary, tr_evidence_ref = None,
                            tr_performed_at = now c\<rparr>],
                        next_id := next_id s2 + 1\<rparr>
                else s2);
          updated = (case filter (\<lambda>d. d_id d = doc_id) (docs s3) of
                       [] \<Rightarrow> [] | d # _ \<Rightarrow> doc_json d)
      in (\<lparr>status = None,
           body = JObj ((''@id'', JStr (root_url c @ ''/@docs/save'')) # updated @
                        [(''qms_synced'', JBool (str_truthy qmsDocumentId))])\<rparr>, s3))"

text \<open>
  The handler: what it returns or throws and the transaction's state; \<open>None\<close> when the
  document's version is outside the modelled numbers. \<open>req.user.id\<close> throws when the
  request has no user.
\<close>

definition postDocsSave :: "ctx \<Rightarrow> save_body \<Rightarrow> db \<Rightarrow> ((js_error + response) \<times> db) option" where
  "postDocsSave c b s =
     (case (sv_doc_id b, sv_body_md b, sv_version_bump b, sv_change_summary b) of
        (Some doc_id, Some body_md, Some version_bump, Some change_summary) \<Rightarrow>
          if doc_id = 0 \<or> body_md = [] \<or> version_bump = [] \<or> change_summary = []
          then Some (Inr (error_response 400
                 ''Missing required fields: doc_id, body_md, version_bump, change_summary''), s)
          else if version_bump \<notin> set [''patch'', ''minor'', ''major'']
          then Some (Inr (error_response 400
                 (''Invalid version_bump: must be '' @ [CHR 0x22] @ ''patch'' @ [CHR 0x22] @ '', '' @
                  [CHR 0x22] @ ''minor'' @ [CHR 0x22] @ '', or '' @ [CHR 0x22] @ ''major'' @
                  [CHR 0x22])), s)
          else
            (case filter (\<lambda>d. d_id d = doc_id) (docs s) of
               [] \<Rightarrow> Some (Inr (error_response 404 ''Document not found''), s)
             | doc # _ \<Rightarrow>
                 if \<not> str_truthy (d_version doc)
                 then Some (Inr (error_response 400
                        (''Document has no current version '' @ [CHR 0xE2, CHR 0x80, CHR 0x94] @
                         '' cannot bump null'')), s)
                 else
                   (case bumpVersion (str_or (d_version doc) []) version_bump of
                      None \<Rightarrow> None
                    | Some (Inl e) \<Rightarrow> Some (Inl e, s)
                    | Some (Inr newVersion) \<Rightarrow>
                        (case req_user c of
                           None \<Rightarrow>
                             Some (Inl (TypeError ''Cannot read properties of undefined''), s)
                         | Some username \<Rightarrow>
                             (case save_document c doc_id body_md change_summary username doc
                                     newVersion s of
                                (resp, s') \<Rightarrow> Some (Inr resp, s')))))
      | _ \<Rightarrow>
          Some (Inr (error_response 400
            ''Missing required fields: doc_id, body_md, version_bump, change_summary''), s))"

text \<open>
  The numeric value of part \<open>i\<close> of a version given as its list of parts; a missing part
  counts as 0.
\<close>

definition version_part :: "string list \<Rightarrow> nat \<Rightarrow> nat" where
  "version_part ps i = (if i < length ps then digits_value (ps ! i) else 0)"

section \<open>The shape of error responses\<close>







section \<open>Concrete requests and databases\<close>

text \<open>
  A request context, a document \<open>sop-1\<close> at version 1.0 that is registered in the QMS as
  \<open>SOP-DC-001\<close>, and a draft of version 1.1 submitted for review. The parameters are
  instantiated with the identity and with fixed defaults.
\<close>

definition ex_ctx :: ctx where
  "ex_ctx = \<lparr>now = 100, today = 20, root_url = ''http://localhost:8080'',
             req_user = Some ''bob'', encodeURIComponent = (\<lambda>x. x),
             toUpperCase = (\<lambda>x. x), trim = (\<lambda>x. x)\<rparr>"

definition ex_schema :: schema where
  "ex_schema = \<lparr>draft_status_default = ''draft'',
                evidence_is_superseded_default = False,
                user_role_active_default = True,
                draft_update_touches_updated_at = True,
                sha256_hex = (\<lambda>x. x)\<rparr>"

definition ex_doc :: doc where
  "ex_doc = \<lparr>d_id = 1, d_slug = ''sop-1'', d_title = Some ''SOP'',
             d_body_md = Some ''old body'', d_version = Some ''1.0'',
             d_status = Some ''effective'', d_frontmatter = None, d_author = Some ''alice'', d_is_edited = False,
             d_edited_by = None, d_updated_at = 5\<rparr>"

definition ex_draft :: draft where
  "ex_draft = \<lparr>dr_id = 7, dr_doc_id = 1, dr_version = ''1.1'', dr_title = Some ''SOP v2'',
               dr_body_md = Some ''new body'', dr_frontmatter = None,
               dr_status = ''in_review'', dr_created_by = ''alice'', dr_updated_by = ''alice'',
               dr_created_at = 50, dr_updated_at = 60, dr_reviewer_notes = None\<rparr>"

definition ex_cdoc :: cdoc where
  "ex_cdoc = map_of [(''document_id'', JStr ''SOP-DC-001''), (''docs_id'', JNum 1),
                     (''status'', JStr ''in_review''), (''version'', JStr ''1.0'')]"

definition ex_justification :: evidence_type where
  "ex_justification = \<lparr>ret_code = ''justification'', ret_label = ''Justification'',
                       ret_required = True, ret_phase = 1\<rparr>"

definition ex_coi :: evidence_type where
  "ex_coi = \<lparr>ret_code = ''coi_declaration'', ret_label = ''COI declaration'',
             ret_required = True, ret_phase = 2\<rparr>"

definition ex_checklist :: evidence_type where
  "ex_checklist = \<lparr>ret_code = ''self_review_checklist'', ret_label = ''Self-review checklist'',
                   ret_required = True, ret_phase = 3\<rparr>"

definition ex_evidence :: "nat \<Rightarrow> string \<Rightarrow> evidence" where
  "ex_evidence n t = \<lparr>ev_id = n, ev_document_id = ''SOP-DC-001'', ev_transition_id = None,
                      ev_evidence_type = t, ev_evidence_data = JObj [],
                      ev_evidence_text = None, ev_recorded_by = ''alice'', ev_recorded_at = 55,
                      ev_is_superseded = False\<rparr>"

text \<open>Only the justification is recorded: the COI declaration is missing.\<close>

definition ex_db_missing :: db where
  "ex_db_missing =
     \<lparr>docs = [ex_doc], doc_drafts = [ex_draft], doc_versions = [],
      controlled_documents = [ex_cdoc], document_transitions = [],
      document_evidence = [ex_evidence 1 ''justification''],
      ref_evidence_types = [ex_justification, ex_coi, ex_checklist],
      training_sessions = [], training_modules = [], training_step_completions = [],
      training_certificates = [], user_roles = [], users = [],
      next_id = 10, db_schema = ex_schema\<rparr>"

text \<open>The evidence of phases 1 and 2 is complete.\<close>

definition ex_db_ready :: db where
  "ex_db_ready =
     ex_db_missing\<lparr>document_evidence :=
                      [ex_evidence 1 ''justification'', ex_evidence 2 ''coi_declaration'']\<rparr>"

definition ex_approve :: approve_body where
  "ex_approve = \<lparr>ab_slug = Some ''sop-1'', ab_comment = None, ab_checklist = None,
                 ab_approval_justification = None, ab_change_classification = None\<rparr>"



text \<open>The same database with no draft, and with the draft not yet submitted.\<close>

definition ex_db_no_draft :: db where
  "ex_db_no_draft = ex_db_missing\<lparr>doc_drafts := []\<rparr>"

definition ex_db_unsubmitted :: db where
  "ex_db_unsubmitted = ex_db_missing\<lparr>doc_drafts := [ex_draft\<lparr>dr_status := ''draft''\<rparr>]\<rparr>"

text \<open>A PUT that revises the draft of \<open>sop-1\<close>.\<close>

definition ex_put :: put_draft_body where
  "ex_put = \<lparr>pd_slug = Some ''sop-1'', pd_version = Some ''1.2'', pd_title = Undefined,
             pd_body_md = Given (Some ''newer body''), pd_frontmatter = None,
             pd_justification = None\<rparr>"

text \<open>A PUT on the register that sets status and version of \<open>SOP-DC-001\<close>.\<close>

definition ex_register_put :: "(string \<times> json) list" where
  "ex_register_put = [(''status'', JStr ''obsolete''), (''version'', JStr ''9.9'')]"

text \<open>A save request with a patch bump for document 1.\<close>

definition ex_save :: save_body where
  "ex_save = \<lparr>sv_doc_id = Some 1, sv_body_md = Some ''edited body'',
              sv_version_bump = Some ''patch'', sv_change_summary = Some ''typo''\<rparr>"

text \<open>
  A training module of two steps that grants two roles, and a session of user \<open>bob\<close> on
  the training document \<open>SOP-DC-001\<close>, at step 1 and at step 2. The user holds a
  deactivated grant of the first role.
\<close>

definition ex_step_1 :: step_def where
  "ex_step_1 = \<lparr>sd_step = 1, sd_key = ''submit'', sd_validation = ''draft_in_review''\<rparr>"

definition ex_step_2 :: step_def where
  "ex_step_2 = \<lparr>sd_step = 2, sd_key = ''justify'', sd_validation = ''evidence_justification''\<rparr>"

definition ex_module :: training_module where
  "ex_module = \<lparr>tm_id = 1, tm_module_code = ''TRN-DC'', tm_title = ''Document control'',
                tm_steps = [ex_step_1, ex_step_2],
                tm_grants_roles = Some [''author'', ''reviewer'']\<rparr>"

definition ex_session :: "int \<Rightarrow> training_session" where
  "ex_session step = \<lparr>ts_id = 3, ts_user_id = ''bob'', ts_module_id = 1,
                      ts_training_doc_id = Some ''SOP-DC-001'', ts_current_step = step,
                      ts_status = ''in_progress'', ts_completed_at = None,
                      ts_certificate_id = None\<rparr>"

definition ex_old_grant :: user_role where
  "ex_old_grant = \<lparr>ur_user_id = ''bob'', ur_role_code = ''author'', ur_granted_by = ''admin'',
                   ur_granted_at = 1, ur_active = False\<rparr>"

definition ex_db_training :: "int \<Rightarrow> db" where
  "ex_db_training step =
     ex_db_missing\<lparr>training_sessions := [ex_session step], training_modules := [ex_module],
                    user_roles := [ex_old_grant],
                    users := [\<lparr>u_id = ''bob'', u_fullname = Some ''Bob Builder''\<rparr>]\<rparr>"

definition ex_validate :: "int \<Rightarrow> validate_body" where
  "ex_validate step = \<lparr>vb_session_id = Some 3, vb_step_number = Some (JNum step)\<rparr>"

text \<open>The same request context for another user, \<open>eve\<close>.\<close>

definition ex_ctx_other :: ctx where
  "ex_ctx_other = ex_ctx\<lparr>req_user := Some ''eve''\<rparr>"



section \<open>Properties of the draft handlers\<close>

subsection \<open>What the statements of an approval leave alone\<close>

lemma insert_version_frame:
  "docs (insert_version c k v t b f a u s) = docs s"
  "doc_drafts (insert_version c k v t b f a u s) = doc_drafts s"
  "controlled_documents (insert_version c k v t b f a u s) = controlled_documents s"
  "document_transitions (insert_version c k v t b f a u s) = document_transitions s"
  "document_evidence (insert_version c k v t b f a u s) = document_evidence s"
  "ref_evidence_types (insert_version c k v t b f a u s) = ref_evidence_types s"
  "next_id (insert_version c k v t b f a u s) = next_id s"
  "db_schema (insert_version c k v t b f a u s) = db_schema s"
  by (simp_all add: insert_version_def)

lemma approve_publish_frame:
  "doc_drafts (approve_publish c dr d s) = doc_drafts s"
  "controlled_documents (approve_publish c dr d s) = controlled_documents s"
  "document_transitions (approve_publish c dr d s) = document_transitions s"
  "document_evidence (approve_publish c dr d s) = document_evidence s"
  "ref_evidence_types (approve_publish c dr d s) = ref_evidence_types s"
  "next_id (approve_publish c dr d s) = next_id s"
  by (simp_all add: approve_publish_def Let_def publish_draft_def supersede_versions_def
        insert_version_frame)

lemma getQmsDocumentId_approve_publish:
  "getQmsDocumentId (approve_publish c dr d s) k = getQmsDocumentId s k"
  by (simp add: getQmsDocumentId_def approve_publish_frame)

lemma missing_evidence_approve_publish:
  "missing_evidence (approve_publish c dr d s) q = missing_evidence s q"
  by (simp add: missing_evidence_def approve_publish_frame)

lemma approve_qms_gate:
  assumes "getQmsDocumentId s (d_id d) = Some q" and "q \<noteq> []" and "missing_evidence s q \<noteq> []"
  shows "approve_qms c b dr d s = (Some (Inr (missing_evidence_response (missing_evidence s q))), s)"
  using assms by (simp add: approve_qms_def Let_def)

lemma approve_at_gate:
  assumes "ab_slug b = Some slug" and "slug \<noteq> []"
    and "draft_join s slug = (dr, d) # rest"
    and "dr_status dr = ''in_review''"
    and "getQmsDocumentId s (d_id d) = Some q" and "q \<noteq> []"
    and "missing_evidence s q \<noteq> []"
  shows "postDocDraftApprove c b s =
           (Inr (missing_evidence_response (missing_evidence s q)), approve_publish c dr d s)"
proof -
  have "approve_qms c b dr d (approve_publish c dr d s) =
          (Some (Inr (missing_evidence_response (missing_evidence s q))), approve_publish c dr d s)"
    using approve_qms_gate [of "approve_publish c dr d s" d q c b dr] assms
    by (simp add: getQmsDocumentId_approve_publish missing_evidence_approve_publish)
  then show ?thesis
    using assms by (simp add: postDocDraftApprove_def str_truthy_def str_or_def)
qed

lemma insertEvidence_frame:
  "docs (insertEvidence c q t ty dat txt u s) = docs s"
  "doc_drafts (insertEvidence c q t ty dat txt u s) = doc_drafts s"
  "doc_versions (insertEvidence c q t ty dat txt u s) = doc_versions s"
  "controlled_documents (insertEvidence c q t ty dat txt u s) = controlled_documents s"
  "document_transitions (insertEvidence c q t ty dat txt u s) = document_transitions s"
  "db_schema (insertEvidence c q t ty dat txt u s) = db_schema s"
  by (simp_all add: insertEvidence_def)

lemma approval_evidence_frame:
  assumes "approval_evidence c b q t u s = Inr s'"
  shows "docs s' = docs s \<and> doc_drafts s' = doc_drafts s \<and> doc_versions s' = doc_versions s \<and>
         controlled_documents s' = controlled_documents s \<and>
         document_transitions s' = document_transitions s \<and> db_schema s' = db_schema s"
  using assms
  by (auto simp: approval_evidence_def Let_def insertEvidence_frame
           split: if_splits sum.splits)

lemma insert_approve_transition_frame:
  assumes "insert_approve_transition c q fv tv u cm s = (t, s')"
  shows "docs s' = docs s \<and> doc_drafts s' = doc_drafts s \<and> doc_versions s' = doc_versions s \<and>
         controlled_documents s' = controlled_documents s \<and> db_schema s' = db_schema s"
  using assms by (auto simp: insert_approve_transition_def)

text \<open>The three ways step 5 ends.\<close>

lemma approve_qms_cases:
  assumes "approve_qms c b dr d s = (r, s4)"
  shows "(r = None \<and> s4 = s \<and> (\<forall>q. getQmsDocumentId s (d_id d) = Some q \<longrightarrow> q = []))
       \<or> (\<exists>q. getQmsDocumentId s (d_id d) = Some q \<and> q \<noteq> [] \<and> missing_evidence s q \<noteq> [] \<and>
               r = Some (Inr (missing_evidence_response (missing_evidence s q))) \<and> s4 = s)
       \<or> (\<exists>q e. getQmsDocumentId s (d_id d) = Some q \<and> q \<noteq> [] \<and> missing_evidence s q = [] \<and>
               r = Some (Inl e))
       \<or> (\<exists>q s2. getQmsDocumentId s (d_id d) = Some q \<and> q \<noteq> [] \<and> missing_evidence s q = [] \<and>
               r = None \<and> s4 = set_effective c (dr_version dr) (d_id d) s2 \<and>
               docs s2 = docs s \<and> doc_drafts s2 = doc_drafts s \<and>
               doc_versions s2 = doc_versions s \<and>
               controlled_documents s2 = controlled_documents s \<and> db_schema s2 = db_schema s)"
proof (cases "getQmsDocumentId s (d_id d)")
  case None
  then show ?thesis using assms by (simp add: approve_qms_def)
next
  case (Some q)
  show ?thesis
  proof (cases "q = []")
    case True
    then show ?thesis using assms Some by (simp add: approve_qms_def)
  next
    case False
    show ?thesis
    proof (cases "missing_evidence s q = []")
      case gate: False
      then show ?thesis using assms Some False by (auto simp: approve_qms_def Let_def)
    next
      case gate: True
      obtain t s1 where tr: "insert_approve_transition c q (str_or (d_version d) ''0.0'')
          (dr_version dr) (user_id c) (str_or (ab_comment b) ''Approved via draft management'') s
          = (t, s1)"
        by (cases "insert_approve_transition c q (str_or (d_version d) ''0.0'')
          (dr_version dr) (user_id c) (str_or (ab_comment b) ''Approved via draft management'') s")
      note f1 = insert_approve_transition_frame [OF tr]
      show ?thesis
      proof (cases "approval_evidence c b q t (user_id c) s1")
        case (Inl e)
        then show ?thesis using assms Some False gate tr
          by (auto simp: approve_qms_def Let_def)
      next
        case (Inr s2)
        note f2 = approval_evidence_frame [OF Inr]
        have "r = None" "s4 = set_effective c (dr_version dr) (d_id d) s2"
          using assms Some False gate tr Inr by (auto simp: approve_qms_def Let_def)
        then have "getQmsDocumentId s (d_id d) = Some q \<and> q \<noteq> [] \<and> missing_evidence s q = [] \<and>
               r = None \<and> s4 = set_effective c (dr_version dr) (d_id d) s2 \<and>
               docs s2 = docs s \<and> doc_drafts s2 = doc_drafts s \<and>
               doc_versions s2 = doc_versions s \<and>
               controlled_documents s2 = controlled_documents s \<and> db_schema s2 = db_schema s"
          using Some False gate f1 f2 by simp
        then show ?thesis by blast
      qed
    qed
  qed
qed

lemma set_effective_frame:
  "docs (set_effective c v k s) = docs s"
  "doc_drafts (set_effective c v k s) = doc_drafts s"
  "doc_versions (set_effective c v k s) = doc_versions s"
  "db_schema (set_effective c v k s) = db_schema s"
  by (simp_all add: set_effective_def)

lemma approve_qms_frame:
  assumes "approve_qms c b dr d s = (None, s4)"
  shows "docs s4 = docs s" "doc_drafts s4 = doc_drafts s" "doc_versions s4 = doc_versions s"
    "db_schema s4 = db_schema s"
  using approve_qms_cases [OF assms] by (auto simp: set_effective_frame)

text \<open>How the handler ends once the draft is found in review.\<close>

lemma approve_in_review:
  assumes "ab_slug b = Some slug" and "slug \<noteq> []"
    and "draft_join s slug = (dr, d) # rest"
    and "dr_status dr = ''in_review''"
  shows "postDocDraftApprove c b s =
           (case approve_qms c b dr d (approve_publish c dr d s) of
              (Some r, s4) \<Rightarrow> (r, s4)
            | (None, s4) \<Rightarrow> (Inr (published_response c slug dr d), approve_finish c dr d s4))"
  using assms by (simp add: postDocDraftApprove_def str_truthy_def str_or_def)

text \<open>Every response but the last of the handler has a status.\<close>

lemma approve_success:
  assumes "postDocDraftApprove c b s = (Inr resp, s')" and "status resp = None"
  shows "\<exists>slug dr d rest s4.
           ab_slug b = Some slug \<and> slug \<noteq> [] \<and>
           draft_join s slug = (dr, d) # rest \<and> dr_status dr = ''in_review'' \<and>
           approve_qms c b dr d (approve_publish c dr d s) = (None, s4) \<and>
           resp = published_response c slug dr d \<and> s' = approve_finish c dr d s4"
proof (cases "ab_slug b")
  case None
  then show ?thesis using assms
    by (auto simp: postDocDraftApprove_def str_truthy_def error_response_def)
next
  case (Some slug)
  show ?thesis
  proof (cases "slug = []")
    case True
    then show ?thesis using assms Some
      by (auto simp: postDocDraftApprove_def str_truthy_def error_response_def)
  next
    case False
    show ?thesis
    proof (cases "draft_join s slug")
      case Nil
      then show ?thesis using assms Some False
        by (auto simp: postDocDraftApprove_def str_truthy_def str_or_def error_response_def)
    next
      case (Cons p rest)
      obtain dr d where p: "p = (dr, d)" by (cases p)
      show ?thesis
      proof (cases "dr_status dr = ''in_review''")
        case ne: False
        then show ?thesis using assms Some False Cons p
          by (auto simp: postDocDraftApprove_def str_truthy_def str_or_def error_response_def)
      next
        case True
        obtain r s4 where q: "approve_qms c b dr d (approve_publish c dr d s) = (r, s4)"
          by (cases "approve_qms c b dr d (approve_publish c dr d s)")
        have eq: "postDocDraftApprove c b s =
                    (case (r, s4) of
                       (Some x, t) \<Rightarrow> (x, t)
                     | (None, t) \<Rightarrow> (Inr (published_response c slug dr d), approve_finish c dr d t))"
          using approve_in_review [of b slug s dr d rest c] Some False Cons p True q by simp
        from approve_qms_cases [OF q] have "r = None"
          using assms eq by (auto simp: missing_evidence_response_def)
        then show ?thesis using assms eq Some False Cons p True q by auto
      qed
    qed
  qed
qed

text \<open>The approval of the example draft whose evidence is complete.\<close>

lemma ex_ready_join:
  "ab_slug ex_approve = Some ''sop-1''" "''sop-1'' \<noteq> []"
  "draft_join ex_db_ready ''sop-1'' = (ex_draft, ex_doc) # []"
  "dr_status ex_draft = ''in_review''"
  by (simp_all add: ex_approve_def draft_join_def ex_db_ready_def ex_db_missing_def
        ex_draft_def ex_doc_def)

lemma ex_ready_registered: "getQmsDocumentId ex_db_ready 1 = Some ''SOP-DC-001''"
  by (simp add: getQmsDocumentId_def ex_db_ready_def ex_db_missing_def ex_cdoc_def)

lemma approve_ex_db_ready:
  "postDocDraftApprove ex_ctx ex_approve ex_db_ready =
      (Inr (published_response ex_ctx ''sop-1'' ex_draft ex_doc),
       approve_finish ex_ctx ex_draft ex_doc
         (set_effective ex_ctx ''1.1'' 1
            (snd (insert_approve_transition ex_ctx ''SOP-DC-001'' ''1.0'' ''1.1'' ''bob''
                    ''Approved via draft management''
                    (approve_publish ex_ctx ex_draft ex_doc ex_db_ready)))))"
proof -
  note reg = ex_ready_registered
  have gate: "missing_evidence ex_db_ready ''SOP-DC-001'' = []"
    by (simp add: missing_evidence_def ex_db_ready_def ex_db_missing_def ex_justification_def
          ex_coi_def ex_checklist_def ex_evidence_def)
  have ev: "approval_evidence ex_ctx ex_approve q t u s = Inr s" for q t u s
    by (simp add: approval_evidence_def ex_approve_def json_truthy_def)
  have "approve_qms ex_ctx ex_approve ex_draft ex_doc
          (approve_publish ex_ctx ex_draft ex_doc ex_db_ready) =
        (None, set_effective ex_ctx ''1.1'' 1
                 (snd (insert_approve_transition ex_ctx ''SOP-DC-001'' ''1.0'' ''1.1'' ''bob''
                         ''Approved via draft management''
                         (approve_publish ex_ctx ex_draft ex_doc ex_db_ready))))"
  proof -
    have vals: "d_id ex_doc = 1" "str_or (d_version ex_doc) ''0.0'' = ''1.0''"
        "dr_version ex_draft = ''1.1''" "user_id ex_ctx = ''bob''"
        "str_or (ab_comment ex_approve) ''Approved via draft management'' =
           ''Approved via draft management''"
      by (simp_all add: ex_doc_def ex_draft_def str_or_def user_id_def ex_ctx_def ex_approve_def)
    show ?thesis
      using reg gate
      by (simp add: approve_qms_def getQmsDocumentId_approve_publish
            missing_evidence_approve_publish Let_def ev split_beta vals)
  qed
  then show ?thesis
    using approve_in_review [OF ex_ready_join(1-4), of ex_ctx] by simp
qed

text \<open>The approval of the example draft whose COI declaration is missing.\<close>

lemma ex_missing_join:
  "ab_slug ex_approve = Some ''sop-1''" "''sop-1'' \<noteq> []"
  "draft_join ex_db_missing ''sop-1'' = (ex_draft, ex_doc) # []"
  "dr_status ex_draft = ''in_review''"
  "getQmsDocumentId ex_db_missing (d_id ex_doc) = Some ''SOP-DC-001''"
  "''SOP-DC-001'' \<noteq> []"
  by (simp_all add: ex_approve_def draft_join_def ex_db_missing_def ex_draft_def ex_doc_def
        getQmsDocumentId_def ex_cdoc_def)

lemma ex_missing_gate: "missing_evidence ex_db_missing ''SOP-DC-001'' = [ex_coi]"
  by (simp add: missing_evidence_def ex_db_missing_def ex_justification_def ex_coi_def
        ex_checklist_def ex_evidence_def)

lemma approve_ex_db_missing:
  "postDocDraftApprove ex_ctx ex_approve ex_db_missing =
     (Inr (missing_evidence_response [ex_coi]),
      approve_publish ex_ctx ex_draft ex_doc ex_db_missing)"
  using approve_at_gate [OF ex_missing_join, of ex_ctx]
  by (simp add: ex_missing_gate)

subsection \<open>C1: the evidence gate\<close>

text \<open>
  C1. For an approval request on a QMS-registered document whose draft is in status
  \<open>in_review\<close>: if an evidence type with \<open>required = true\<close> and \<open>phase <= 2\<close> has no
  evidence row of that document that is not superseded, the handler returns status 422
  with the list of the missing evidence types, which contains that type; the transaction
  holds no new row of \<open>qms.document_transitions\<close>, and \<open>qms.controlled_documents\<close> is as
  it was, so no status is set to \<open>effective\<close>.
\<close>

theorem approve_gate_rejects_missing_evidence:
  assumes "ab_slug b = Some slug" and "slug \<noteq> []"
    and "draft_join s slug = (dr, d) # rest"
    and "dr_status dr = ''in_review''"
    and "getQmsDocumentId s (d_id d) = Some q" and "q \<noteq> []"
    and "ret \<in> set (ref_evidence_types s)" and "ret_required ret" and "ret_phase ret \<le> 2"
    and "\<not> (\<exists>de \<in> set (document_evidence s).
               ev_document_id de = q \<and> ev_evidence_type de = ret_code ret \<and>
               \<not> ev_is_superseded de)"
  shows "\<exists>resp s'. postDocDraftApprove c b s = (Inr resp, s') \<and>
           status resp = Some 422 \<and>
           jget (body resp) ''missing_evidence'' =
             Some (JArr (map (\<lambda>r. JObj [(''code'', JStr (ret_code r)),
                                         (''label'', JStr (ret_label r))])
                             (missing_evidence s q))) \<and>
           ret \<in> set (missing_evidence s q) \<and>
           document_transitions s' = document_transitions s \<and>
           controlled_documents s' = controlled_documents s"
proof -
  have mem: "ret \<in> set (missing_evidence s q)"
    using assms(7-10) by (simp add: missing_evidence_def)
  then have "missing_evidence s q \<noteq> []" by auto
  then have "postDocDraftApprove c b s =
               (Inr (missing_evidence_response (missing_evidence s q)), approve_publish c dr d s)"
    using assms(1-6) by (rule approve_at_gate [rotated -1])
  then show ?thesis
    using mem by (simp add: missing_evidence_response_def jget_def approve_publish_frame)
qed

theorem approve_gate_rejects_missing_evidence_witness:
  "\<exists>resp s'. postDocDraftApprove ex_ctx ex_approve ex_db_missing = (Inr resp, s') \<and>
     status resp = Some 422 \<and>
     jget (body resp) ''missing_evidence'' =
       Some (JArr [JObj [(''code'', JStr ''coi_declaration''),
                         (''label'', JStr ''COI declaration'')]]) \<and>
     document_transitions s' = [] \<and>
     controlled_documents s' = [ex_cdoc]"
proof -
  have gate: "missing_evidence ex_db_missing ''SOP-DC-001'' = [ex_coi]"
    by (simp add: missing_evidence_def ex_db_missing_def ex_justification_def ex_coi_def
          ex_checklist_def ex_evidence_def)
  have "\<exists>resp s'. postDocDraftApprove ex_ctx ex_approve ex_db_missing = (Inr resp, s') \<and>
           status resp = Some 422 \<and>
           jget (body resp) ''missing_evidence'' =
             Some (JArr (map (\<lambda>r. JObj [(''code'', JStr (ret_code r)),
                                         (''label'', JStr (ret_label r))])
                             (missing_evidence ex_db_missing ''SOP-DC-001''))) \<and>
           ex_coi \<in> set (missing_evidence ex_db_missing ''SOP-DC-001'') \<and>
           document_transitions s' = document_transitions ex_db_missing \<and>
           controlled_documents s' = controlled_documents ex_db_missing"
    by (rule approve_gate_rejects_missing_evidence
              [of ex_approve "''sop-1''" ex_db_missing ex_draft ex_doc "[]" "''SOP-DC-001''" ex_coi])
       (simp_all add: ex_approve_def ex_db_missing_def draft_join_def ex_draft_def ex_doc_def
          getQmsDocumentId_def ex_cdoc_def ex_coi_def ex_justification_def ex_checklist_def
          ex_evidence_def)
  then show ?thesis
    unfolding gate by (simp add: ex_coi_def ex_db_missing_def)
qed

subsection \<open>C2: approval needs a draft in review\<close>

text \<open>
  C2. For a request to POST /@docs/draft/approve that gives a slug: if no draft row exists
  for the document with that slug the handler returns status 404; if the draft exists and
  its status is not \<open>in_review\<close> it returns status 409; in both cases the transaction is
  untouched. A draft is published only from status \<open>in_review\<close>: whenever the handler
  returns its success response, or changes the database at all, the draft it fetched was
  in review.
\<close>

theorem approve_404_409_only_in_review:
  assumes "ab_slug b = Some slug" and "slug \<noteq> []"
  shows "(draft_join s slug = [] \<longrightarrow>
            postDocDraftApprove c b s =
              (Inr (error_response 404 ''No draft found for this document''), s)) \<and>
         (\<forall>dr d rest. draft_join s slug = (dr, d) # rest \<and> dr_status dr \<noteq> ''in_review'' \<longrightarrow>
            (\<exists>resp. postDocDraftApprove c b s = (Inr resp, s) \<and> status resp = Some 409)) \<and>
         (\<forall>resp s'. postDocDraftApprove c b s = (Inr resp, s') \<and> status resp = None \<longrightarrow>
            (\<exists>dr d rest. draft_join s slug = (dr, d) # rest \<and> dr_status dr = ''in_review'')) \<and>
         (snd (postDocDraftApprove c b s) \<noteq> s \<longrightarrow>
            (\<exists>dr d rest. draft_join s slug = (dr, d) # rest \<and> dr_status dr = ''in_review''))"
proof (intro conjI allI impI)
  assume "draft_join s slug = []"
  then show "postDocDraftApprove c b s =
               (Inr (error_response 404 ''No draft found for this document''), s)"
    using assms by (simp add: postDocDraftApprove_def str_truthy_def str_or_def)
next
  fix dr d rest
  assume "draft_join s slug = (dr, d) # rest \<and> dr_status dr \<noteq> ''in_review''"
  then show "\<exists>resp. postDocDraftApprove c b s = (Inr resp, s) \<and> status resp = Some 409"
    using assms
    by (simp add: postDocDraftApprove_def str_truthy_def str_or_def error_response_def)
next
  fix resp s'
  assume "postDocDraftApprove c b s = (Inr resp, s') \<and> status resp = None"
  then have "postDocDraftApprove c b s = (Inr resp, s')" and "status resp = None"
    by simp_all
  from approve_success [OF this] show
    "\<exists>dr d rest. draft_join s slug = (dr, d) # rest \<and> dr_status dr = ''in_review''"
    using assms by auto
next
  assume changed: "snd (postDocDraftApprove c b s) \<noteq> s"
  show "\<exists>dr d rest. draft_join s slug = (dr, d) # rest \<and> dr_status dr = ''in_review''"
  proof (cases "draft_join s slug")
    case Nil
    then show ?thesis using assms changed
      by (simp add: postDocDraftApprove_def str_truthy_def str_or_def)
  next
    case (Cons p rest)
    obtain dr d where p: "p = (dr, d)" by (cases p)
    show ?thesis
    proof (cases "dr_status dr = ''in_review''")
      case True
      then show ?thesis using Cons p by simp
    next
      case False
      then show ?thesis using assms changed Cons p
        by (simp add: postDocDraftApprove_def str_truthy_def str_or_def)
    qed
  qed
qed

theorem approve_404_409_only_in_review_witness:
  "postDocDraftApprove ex_ctx ex_approve ex_db_no_draft =
     (Inr (error_response 404 ''No draft found for this document''), ex_db_no_draft) \<and>
   (\<exists>resp. postDocDraftApprove ex_ctx ex_approve ex_db_unsubmitted = (Inr resp, ex_db_unsubmitted) \<and>
           status resp = Some 409) \<and>
   snd (postDocDraftApprove ex_ctx ex_approve ex_db_missing) \<noteq> ex_db_missing \<and>
   (\<exists>dr d rest. draft_join ex_db_missing ''sop-1'' = (dr, d) # rest \<and>
                 dr_status dr = ''in_review'')"
proof -
  have slug: "ab_slug ex_approve = Some ''sop-1''" "''sop-1'' \<noteq> []"
    by (simp_all add: ex_approve_def)
  have none: "draft_join ex_db_no_draft ''sop-1'' = []"
    by (simp add: draft_join_def ex_db_no_draft_def ex_db_missing_def)
  have unsub: "draft_join ex_db_unsubmitted ''sop-1'' = (ex_draft\<lparr>dr_status := ''draft''\<rparr>, ex_doc) # [] \<and>
               dr_status (ex_draft\<lparr>dr_status := ''draft''\<rparr>) \<noteq> ''in_review''"
    by (simp add: draft_join_def ex_db_unsubmitted_def ex_db_missing_def ex_draft_def ex_doc_def)
  have moved: "snd (postDocDraftApprove ex_ctx ex_approve ex_db_missing) \<noteq> ex_db_missing"
  proof
    assume "snd (postDocDraftApprove ex_ctx ex_approve ex_db_missing) = ex_db_missing"
    then have "doc_versions (snd (postDocDraftApprove ex_ctx ex_approve ex_db_missing)) =
                 doc_versions ex_db_missing"
      by simp
    then show False
      by (simp add: postDocDraftApprove_def ex_approve_def str_truthy_def str_or_def
            draft_join_def ex_db_missing_def ex_draft_def ex_doc_def approve_qms_def
            approve_publish_def publish_draft_def supersede_versions_def insert_version_def
            getQmsDocumentId_def ex_cdoc_def missing_evidence_def ex_justification_def
            ex_coi_def ex_checklist_def ex_evidence_def Let_def)
  qed
  note inst = approve_404_409_only_in_review [OF slug, of _ ex_ctx]
  show ?thesis
    using inst [of ex_db_no_draft] inst [of ex_db_unsubmitted] inst [of ex_db_missing]
      none unsub moved
    by blast
qed

subsection \<open>C3: what a successful approval does\<close>









lemma approve_finish_frame:
  "docs (approve_finish c dr d s) = docs s"
  "controlled_documents (approve_finish c dr d s) = controlled_documents s"
  "doc_drafts (approve_finish c dr d s) = filter (\<lambda>r. dr_id r \<noteq> dr_id dr) (doc_drafts s)"
  "doc_versions (approve_finish c dr d s) =
     doc_versions (insert_version c (d_id d) (dr_version dr)
                     (str_or_opt (dr_title dr) (d_title d))
                     (str_or_opt (dr_body_md dr) (d_body_md d))
                     (if json_truthy (dr_frontmatter dr) then js_of (dr_frontmatter dr)
                      else js_of (d_frontmatter d))
                     (d_author d) (user_id c) s)"
  by (simp_all add: approve_finish_def Let_def insert_version_frame)









subsection \<open>C4: at most one draft per document\<close>

lemma at_most_one_distinct:
  "(\<forall>k. length (filter (\<lambda>r. f r = k) xs) \<le> 1) = distinct (map f xs)"
proof (induction xs)
  case Nil
  then show ?case by simp
next
  case (Cons x xs)
  have "(\<forall>k. length (filter (\<lambda>r. f r = k) (x # xs)) \<le> 1) =
        ((\<forall>k. length (filter (\<lambda>r. f r = k) xs) \<le> 1) \<and> filter (\<lambda>r. f r = f x) xs = [])"
    by (auto simp: le_Suc_eq)
  also have "\<dots> = (distinct (map f xs) \<and> f x \<notin> f ` set xs)"
    unfolding Cons.IH by (auto simp: filter_empty_conv image_iff)
  finally show ?case by auto
qed

lemma one_draft_per_doc_distinct:
  "one_draft_per_doc s = distinct (map dr_doc_id (doc_drafts s))"
  unfolding one_draft_per_doc_def by (rule at_most_one_distinct)

lemma map_update_keeps_doc_id:
  assumes "\<And>x. dr_doc_id (g x) = dr_doc_id x"
  shows "map dr_doc_id (map (\<lambda>x. if P x then g x else x) xs) = map dr_doc_id xs"
  using assms by (induction xs) auto

lemma upsert_draft_invariant:
  assumes "distinct (map dr_doc_id (doc_drafts s))"
  shows "distinct (map dr_doc_id (doc_drafts (snd (upsert_draft c k v t b f u s))))"
proof (cases "filter (\<lambda>r. dr_doc_id r = k) (doc_drafts s)")
  case Nil
  then have "k \<notin> dr_doc_id ` set (doc_drafts s)"
    by (auto simp: filter_empty_conv)
  then show ?thesis using assms Nil
    by (simp add: upsert_draft_def Let_def)
next
  case (Cons r rs)
  have "map dr_doc_id (doc_drafts (snd (upsert_draft c k v t b f u s))) =
        map dr_doc_id (doc_drafts s)"
    using Cons
    by (simp add: upsert_draft_def Let_def map_update_keeps_doc_id upsert_draft_update_def)
  then show ?thesis using assms by simp
qed

lemma putDocDraft_drafts:
  "doc_drafts (snd (putDocDraft c b s)) = doc_drafts s \<or>
   (\<exists>k v t bd f u. doc_drafts (snd (putDocDraft c b s)) =
                     doc_drafts (snd (upsert_draft c k v t bd f u s)))"
proof (cases "str_truthy (pd_slug b) \<and> str_truthy (pd_version b)")
  case False
  then show ?thesis
    by (auto simp: putDocDraft_def Let_def split: list.splits)
next
  case True
  show ?thesis
  proof (cases "filter (\<lambda>d. d_slug d = str_or (pd_slug b) []) (docs s)")
    case Nil
    then show ?thesis using True by (simp add: putDocDraft_def Let_def)
  next
    case (Cons doc rest)
    let ?up = "upsert_draft c (d_id doc) (str_or (pd_version b) [])
                 (case pd_title b of Undefined \<Rightarrow> d_title doc | Given t \<Rightarrow> t)
                 (case pd_body_md b of Undefined \<Rightarrow> d_body_md doc | Given t \<Rightarrow> t)
                 (case pd_frontmatter b of None \<Rightarrow> js_of (d_frontmatter doc) | Some f \<Rightarrow> f)
                 (user_id c) s"
    have "doc_drafts (snd (putDocDraft c b s)) = doc_drafts (snd ?up)"
      using True Cons
      by (auto simp: putDocDraft_def Let_def split_beta insertEvidence_frame
               split: option.splits)
    then show ?thesis by blast
  qed
qed

lemma approve_qms_drafts:
  "doc_drafts (snd (approve_qms c b dr d s)) = doc_drafts s"
proof -
  obtain r s4 where q: "approve_qms c b dr d s = (r, s4)"
    by (cases "approve_qms c b dr d s")
  have "doc_drafts s4 = doc_drafts s"
  proof (cases "getQmsDocumentId s (d_id d)")
    case None
    then show ?thesis using q by (simp add: approve_qms_def)
  next
    case (Some qid)
    obtain t s1 where tr: "insert_approve_transition c qid (str_or (d_version d) ''0.0'')
        (dr_version dr) (user_id c) (str_or (ab_comment b) ''Approved via draft management'') s
        = (t, s1)"
      by (cases "insert_approve_transition c qid (str_or (d_version d) ''0.0'')
        (dr_version dr) (user_id c) (str_or (ab_comment b) ''Approved via draft management'') s")
    note f1 = insert_approve_transition_frame [OF tr]
    show ?thesis
    proof (cases "approval_evidence c b qid t (user_id c) s1")
      case (Inl e)
      then show ?thesis using q Some tr f1
        by (auto simp: approve_qms_def Let_def split: if_splits)
    next
      case (Inr s2)
      note f2 = approval_evidence_frame [OF Inr]
      show ?thesis using q Some tr Inr f1 f2
        by (auto simp: approve_qms_def Let_def set_effective_frame split: if_splits)
    qed
  qed
  then show ?thesis using q by simp
qed

lemma postDocDraftApprove_drafts:
  "doc_drafts (snd (postDocDraftApprove c b s)) = doc_drafts s \<or>
   (\<exists>i. doc_drafts (snd (postDocDraftApprove c b s)) =
          filter (\<lambda>r. dr_id r \<noteq> i) (doc_drafts s))"
proof (cases "str_truthy (ab_slug b)")
  case False
  then show ?thesis by (simp add: postDocDraftApprove_def)
next
  case True
  show ?thesis
  proof (cases "draft_join s (str_or (ab_slug b) [])")
    case Nil
    then show ?thesis using True by (simp add: postDocDraftApprove_def)
  next
    case (Cons p rest)
    obtain dr d where p: "p = (dr, d)" by (cases p)
    show ?thesis
    proof (cases "dr_status dr = ''in_review''")
      case False
      then show ?thesis using True Cons p by (simp add: postDocDraftApprove_def)
    next
      case review: True
      obtain r s4 where q: "approve_qms c b dr d (approve_publish c dr d s) = (r, s4)"
        by (cases "approve_qms c b dr d (approve_publish c dr d s)")
      have s4: "doc_drafts s4 = doc_drafts s"
        using approve_qms_drafts [of c b dr d "approve_publish c dr d s"] q
        by (simp add: approve_publish_frame)
      show ?thesis
      proof (cases r)
        case None
        then have "doc_drafts (snd (postDocDraftApprove c b s)) =
                     filter (\<lambda>r. dr_id r \<noteq> dr_id dr) (doc_drafts s)"
          using True Cons p review q s4
          by (simp add: postDocDraftApprove_def approve_finish_frame)
        then show ?thesis by blast
      next
        case (Some x)
        then show ?thesis using True Cons p review q s4
          by (simp add: postDocDraftApprove_def)
      qed
    qed
  qed
qed

lemma status_update_drafts:
  "map dr_doc_id (doc_drafts (snd (postDocDraftSubmit c b s))) = map dr_doc_id (doc_drafts s)"
  "map dr_doc_id (doc_drafts (snd (postDocDraftReject c b' s))) = map dr_doc_id (doc_drafts s)"
proof -
  let ?hit = "\<lambda>r. Some (dr_doc_id r) = slug_doc_id s (str_or (sb_slug b) []) \<and>
                  (dr_status r = ''draft'' \<or> dr_status r = ''rejected'')"
  let ?upd = "\<lambda>r. r\<lparr>dr_status := ''in_review'', dr_reviewer_notes := None,
                       dr_updated_by := user_id c\<rparr>"
  have "doc_drafts (snd (postDocDraftSubmit c b s)) = doc_drafts s \<or>
        doc_drafts (snd (postDocDraftSubmit c b s)) =
          map (\<lambda>x. if ?hit x then ?upd x else x) (doc_drafts s)"
    by (auto simp: postDocDraftSubmit_def Let_def insertEvidence_frame
             split: list.splits option.splits)
  moreover have "map dr_doc_id (map (\<lambda>x. if ?hit x then ?upd x else x) (doc_drafts s)) =
                 map dr_doc_id (doc_drafts s)"
    by (rule map_update_keeps_doc_id) simp
  ultimately show "map dr_doc_id (doc_drafts (snd (postDocDraftSubmit c b s))) =
                   map dr_doc_id (doc_drafts s)"
    by (elim disjE) simp_all
next
  let ?hit = "\<lambda>r. Some (dr_doc_id r) = slug_doc_id s (str_or (rb_slug b') []) \<and>
                  dr_status r = ''in_review''"
  let ?upd = "\<lambda>r. r\<lparr>dr_status := ''rejected'',
                       dr_reviewer_notes := Some (str_or (rb_notes b') []),
                       dr_updated_by := user_id c\<rparr>"
  have "doc_drafts (snd (postDocDraftReject c b' s)) = doc_drafts s \<or>
        doc_drafts (snd (postDocDraftReject c b' s)) =
          map (\<lambda>x. if ?hit x then ?upd x else x) (doc_drafts s)"
    by (auto simp: postDocDraftReject_def Let_def insertEvidence_frame
             split: list.splits option.splits)
  moreover have "map dr_doc_id (map (\<lambda>x. if ?hit x then ?upd x else x) (doc_drafts s)) =
                 map dr_doc_id (doc_drafts s)"
    by (rule map_update_keeps_doc_id) simp
  ultimately show "map dr_doc_id (doc_drafts (snd (postDocDraftReject c b' s))) =
                   map dr_doc_id (doc_drafts s)"
    by (elim disjE) simp_all
qed

lemma deleteDocDraft_drafts:
  "\<exists>P. doc_drafts (snd (deleteDocDraft c q s)) = filter P (doc_drafts s)"
proof (cases "doc_drafts (snd (deleteDocDraft c q s)) = doc_drafts s")
  case True
  then have "doc_drafts (snd (deleteDocDraft c q s)) = filter (\<lambda>r. True) (doc_drafts s)"
    by simp
  then show ?thesis by blast
next
  case False
  then have "doc_drafts (snd (deleteDocDraft c q s)) =
               filter (\<lambda>r. \<not> Some (dr_doc_id r) = slug_doc_id s (str_or q [])) (doc_drafts s)"
    by (auto simp: deleteDocDraft_def Let_def split: if_splits)
  then show ?thesis by blast
qed

lemma draft_request_state_invariant:
  assumes "one_draft_per_doc s"
  shows "one_draft_per_doc (draft_request_state c rq s)"
proof -
  have inv: "distinct (map dr_doc_id (doc_drafts s))"
    using assms by (simp add: one_draft_per_doc_distinct)
  have "distinct (map dr_doc_id (doc_drafts (draft_request_state c rq s)))"
  proof (cases rq)
    case (PutDraft b)
    then show ?thesis
      using putDocDraft_drafts [of c b s] inv upsert_draft_invariant [OF inv]
      by (auto simp: draft_request_state_def)
  next
    case (SubmitDraft b)
    then show ?thesis
      using status_update_drafts(1) [of c b s] inv
      by (simp add: draft_request_state_def)
  next
    case (RejectDraft b)
    then show ?thesis
      using status_update_drafts(2) [of c b s] inv
      by (simp add: draft_request_state_def)
  next
    case (ApproveDraft b)
    then show ?thesis
      using postDocDraftApprove_drafts [of c b s] inv
      by (auto simp: draft_request_state_def distinct_map_filter)
  next
    case (DeleteDraft q)
    then show ?thesis
      using deleteDocDraft_drafts [of c q s] inv
      by (auto simp: draft_request_state_def distinct_map_filter)
  qed
  then show ?thesis by (simp add: one_draft_per_doc_distinct)
qed

lemma run_draft_requests_invariant:
  "one_draft_per_doc s \<Longrightarrow> one_draft_per_doc (run_draft_requests rqs s)"
proof (induction rqs arbitrary: s)
  case Nil
  then show ?case by simp
next
  case (Cons x rqs)
  obtain c rq committed where x: "x = (c, rq, committed)" by (cases x)
  show ?case
    using Cons.IH [of "draft_request_state c rq s"] Cons.IH [of s] Cons.prems
      draft_request_state_invariant [of s c rq]
    by (simp add: x)
qed

text \<open>A PUT for a document that has a draft leaves it with exactly one.\<close>

lemma putDocDraft_keeps_one:
  assumes "one_draft_per_doc s" and "r \<in> set (doc_drafts s)"
  shows "length (filter (\<lambda>x. dr_doc_id x = dr_doc_id r)
                        (doc_drafts (snd (putDocDraft c b s)))) = 1"
proof -
  have inv: "one_draft_per_doc (snd (putDocDraft c b s))"
    using draft_request_state_invariant [OF assms(1), of c "PutDraft b"]
    by (simp add: draft_request_state_def)
  have "dr_doc_id r \<in> dr_doc_id ` set (doc_drafts (snd (putDocDraft c b s)))"
  proof -
    from putDocDraft_drafts [of c b s]
    consider "doc_drafts (snd (putDocDraft c b s)) = doc_drafts s"
      | k v t bd f u where "doc_drafts (snd (putDocDraft c b s)) =
                              doc_drafts (snd (upsert_draft c k v t bd f u s))"
      by blast
    then show ?thesis
    proof cases
      case 1
      then show ?thesis using assms(2) by simp
    next
      case 2
      have "dr_doc_id ` set (doc_drafts s) \<subseteq>
            dr_doc_id ` set (doc_drafts (snd (upsert_draft c k v t bd f u s)))"
      proof (cases "filter (\<lambda>r. dr_doc_id r = k) (doc_drafts s)")
        case Nil
        then show ?thesis by (auto simp: upsert_draft_def Let_def)
      next
        case (Cons a as)
        have "map dr_doc_id (doc_drafts (snd (upsert_draft c k v t bd f u s))) =
              map dr_doc_id (doc_drafts s)"
          using Cons
          by (simp add: upsert_draft_def Let_def map_update_keeps_doc_id upsert_draft_update_def)
        then have "set (map dr_doc_id (doc_drafts (snd (upsert_draft c k v t bd f u s)))) =
                   set (map dr_doc_id (doc_drafts s))"
          by simp
        then show ?thesis by simp
      qed
      then show ?thesis using 2 assms(2) by auto
    qed
  qed
  then have "filter (\<lambda>x. dr_doc_id x = dr_doc_id r) (doc_drafts (snd (putDocDraft c b s))) \<noteq> []"
    by (auto simp: filter_empty_conv)
  then have "length (filter (\<lambda>x. dr_doc_id x = dr_doc_id r)
                            (doc_drafts (snd (putDocDraft c b s)))) \<noteq> 0"
    by simp
  moreover have "length (filter (\<lambda>x. dr_doc_id x = dr_doc_id r)
                                (doc_drafts (snd (putDocDraft c b s)))) \<le> 1"
    using inv by (simp add: one_draft_per_doc_def)
  ultimately show ?thesis by linarith
qed

text \<open>A successful approval leaves the document without a draft.\<close>

lemma approve_removes_draft:
  assumes "one_draft_per_doc s"
    and "ab_slug b = Some slug" and "slug \<noteq> []"
    and "draft_join s slug = (dr, d) # rest"
    and "postDocDraftApprove c b s = (Inr resp, s')" and "status resp = None"
  shows "filter (\<lambda>r. dr_doc_id r = d_id d) (doc_drafts s') = []"
proof -
  from approve_success [OF assms(5,6)] assms(2-4)
  obtain s4 where q: "approve_qms c b dr d (approve_publish c dr d s) = (None, s4)"
    and s': "s' = approve_finish c dr d s4"
    by auto
  have drafts: "doc_drafts s' = filter (\<lambda>r. dr_id r \<noteq> dr_id dr) (doc_drafts s)"
    by (simp add: s' approve_finish_frame approve_qms_frame [OF q] approve_publish_frame)
  have "(dr, d) \<in> set (draft_join s slug)"
    using assms(4) by simp
  then have dr: "dr \<in> set (doc_drafts s)" "dr_doc_id dr = d_id d"
    by (auto simp: draft_join_def)
  have inj: "inj_on dr_doc_id (set (doc_drafts s))"
    using assms(1) by (simp add: one_draft_per_doc_distinct distinct_map)
  have "r = dr" if "r \<in> set (doc_drafts s)" "dr_doc_id r = d_id d" for r
    using inj_onD [OF inj, of r dr] that dr by simp
  then show ?thesis
    unfolding drafts by (auto simp: filter_empty_conv)
qed

lemma delete_removes_draft:
  assumes "slug \<noteq> []" and "slug_doc_id s slug = Some k"
    and "deleteDocDraft c (Some slug) s = (resp, s')" and "status resp = None"
  shows "filter (\<lambda>r. dr_doc_id r = k) (doc_drafts s') = []"
  using assms
  by (auto simp: deleteDocDraft_def Let_def str_truthy_def str_or_def error_response_def
        filter_empty_conv split: if_splits)

text \<open>
  C4. If no document has more than one row in \<open>i18n.doc_drafts\<close>, then after every
  sequence of draft requests (PUT, submit, reject, approve, delete; each committed or
  rolled back) no document has more than one. A PUT for a document that has a draft
  leaves it with exactly one row: the upsert updates it on the \<open>doc_id\<close> conflict instead
  of inserting a second. After a successful approval and after a successful deletion
  the document has no draft row.
\<close>

theorem one_draft_per_document:
  assumes "one_draft_per_doc s"
  shows "one_draft_per_doc (run_draft_requests rqs s) \<and>
         (\<forall>c b r. r \<in> set (doc_drafts s) \<longrightarrow>
            length (filter (\<lambda>x. dr_doc_id x = dr_doc_id r)
                           (doc_drafts (snd (putDocDraft c b s)))) = 1) \<and>
         (\<forall>c b slug dr d rest resp s'.
            ab_slug b = Some slug \<and> slug \<noteq> [] \<and> draft_join s slug = (dr, d) # rest \<and>
            postDocDraftApprove c b s = (Inr resp, s') \<and> status resp = None \<longrightarrow>
            filter (\<lambda>r. dr_doc_id r = d_id d) (doc_drafts s') = []) \<and>
         (\<forall>c slug k resp s'.
            slug \<noteq> [] \<and> slug_doc_id s slug = Some k \<and>
            deleteDocDraft c (Some slug) s = (resp, s') \<and> status resp = None \<longrightarrow>
            filter (\<lambda>r. dr_doc_id r = k) (doc_drafts s') = [])"
proof (intro conjI allI impI)
  show "one_draft_per_doc (run_draft_requests rqs s)"
    using assms by (rule run_draft_requests_invariant)
next
  fix c b r
  assume "r \<in> set (doc_drafts s)"
  with assms show "length (filter (\<lambda>x. dr_doc_id x = dr_doc_id r)
                                  (doc_drafts (snd (putDocDraft c b s)))) = 1"
    by (rule putDocDraft_keeps_one)
next
  fix c b slug dr d rest resp s'
  assume "ab_slug b = Some slug \<and> slug \<noteq> [] \<and> draft_join s slug = (dr, d) # rest \<and>
          postDocDraftApprove c b s = (Inr resp, s') \<and> status resp = None"
  then show "filter (\<lambda>r. dr_doc_id r = d_id d) (doc_drafts s') = []"
    using approve_removes_draft [OF assms, of b slug dr d rest c resp s'] by blast
next
  fix c slug k resp s'
  assume "slug \<noteq> [] \<and> slug_doc_id s slug = Some k \<and>
          deleteDocDraft c (Some slug) s = (resp, s') \<and> status resp = None"
  then show "filter (\<lambda>r. dr_doc_id r = k) (doc_drafts s') = []"
    using delete_removes_draft [of slug s k c resp s'] by blast
qed

theorem one_draft_per_document_witness:
  "one_draft_per_doc ex_db_ready \<and>
   one_draft_per_doc
     (run_draft_requests
        [(ex_ctx, PutDraft ex_put, True), (ex_ctx, DeleteDraft (Some ''sop-1''), False),
         (ex_ctx, ApproveDraft ex_approve, True), (ex_ctx, PutDraft ex_put, True)]
        ex_db_ready) \<and>
   length (filter (\<lambda>x. dr_doc_id x = 1) (doc_drafts (snd (putDocDraft ex_ctx ex_put ex_db_ready))))
     = 1 \<and>
   filter (\<lambda>r. dr_doc_id r = 1)
          (doc_drafts (snd (postDocDraftApprove ex_ctx ex_approve ex_db_ready))) = [] \<and>
   filter (\<lambda>r. dr_doc_id r = 1)
          (doc_drafts (snd (deleteDocDraft ex_ctx (Some ''sop-1'') ex_db_ready))) = []"
proof -
  have inv: "one_draft_per_doc ex_db_ready"
    by (simp add: one_draft_per_doc_def ex_db_ready_def ex_db_missing_def)
  note all = one_draft_per_document [OF inv]
  have dr: "ex_draft \<in> set (doc_drafts ex_db_ready)" "dr_doc_id ex_draft = 1" "d_id ex_doc = 1"
    by (simp_all add: ex_db_ready_def ex_db_missing_def ex_draft_def ex_doc_def)
  have ok: "status (published_response ex_ctx ''sop-1'' ex_draft ex_doc) = None"
    by (simp add: published_response_def)
  have del: "slug_doc_id ex_db_ready ''sop-1'' = Some 1"
    "status (fst (deleteDocDraft ex_ctx (Some ''sop-1'') ex_db_ready)) = None"
    by (simp_all add: slug_doc_id_def deleteDocDraft_def ex_db_ready_def ex_db_missing_def
          ex_doc_def ex_draft_def str_truthy_def str_or_def Let_def)
  have put: "length (filter (\<lambda>x. dr_doc_id x = 1)
                            (doc_drafts (snd (putDocDraft ex_ctx ex_put ex_db_ready)))) = 1"
  proof -
    from all [of "[]"] have "\<forall>c b r. r \<in> set (doc_drafts ex_db_ready) \<longrightarrow>
            length (filter (\<lambda>x. dr_doc_id x = dr_doc_id r)
                           (doc_drafts (snd (putDocDraft c b ex_db_ready)))) = 1"
      by blast
    from this [rule_format, OF dr(1), of ex_ctx ex_put] show ?thesis
      by (simp add: dr(2))
  qed
  have approve: "filter (\<lambda>r. dr_doc_id r = 1)
          (doc_drafts (snd (postDocDraftApprove ex_ctx ex_approve ex_db_ready))) = []"
    using all [of "[]"] ex_ready_join approve_ex_db_ready ok dr(3)
    by (metis snd_conv)
  have delete: "filter (\<lambda>r. dr_doc_id r = 1)
          (doc_drafts (snd (deleteDocDraft ex_ctx (Some ''sop-1'') ex_db_ready))) = []"
    using all [of "[]"] del ex_ready_join(2)
    by (metis prod.collapse)
  show ?thesis
    using inv all [of "[(ex_ctx, PutDraft ex_put, True), (ex_ctx, DeleteDraft (Some ''sop-1''), False),
         (ex_ctx, ApproveDraft ex_approve, True), (ex_ctx, PutDraft ex_put, True)]"]
      put approve delete
    by blast
qed

subsection \<open>C5: changes of the register and the audit trail\<close>

text \<open>The PUT handler of the register never writes to \<open>qms.document_transitions\<close>.\<close>

lemma putQmsDocument_no_transition:
  "document_transitions (snd (putQmsDocument c document_id req_body s)) = document_transitions s"
  by (simp add: putQmsDocument_def Let_def split: list.splits)

text \<open>The transition handler inserts its row before it updates the register.\<close>

lemma postQmsTransition_records:
  assumes "status (fst (postQmsTransition c document_id b s)) = Some 201"
  shows "\<exists>row. document_transitions (snd (postQmsTransition c document_id b s)) =
                 document_transitions s @ [row] \<and>
               tr_document_id row = document_id \<and> tr_action row = str_or (tb_action b) []"
  using assms
  by (auto simp: postQmsTransition_def Let_def error_response_def
           split: if_splits list.splits)

text \<open>
  C5 at a PUT whose body sets status and version: the register row of \<open>SOP-DC-001\<close> goes
  from \<open>in_review\<close> at 1.0 to \<open>obsolete\<close> at 9.9, and \<open>qms.document_transitions\<close> stays
  empty.
\<close>

theorem register_put_changes_status_unaudited:
  "status (fst (putQmsDocument ex_ctx ''SOP-DC-001'' ex_register_put ex_db_ready)) = None \<and>
   map (\<lambda>r. (r ''status'', r ''version'')) (controlled_documents ex_db_ready) =
     [(Some (JStr ''in_review''), Some (JStr ''1.0''))] \<and>
   map (\<lambda>r. (r ''status'', r ''version''))
       (controlled_documents (snd (putQmsDocument ex_ctx ''SOP-DC-001'' ex_register_put ex_db_ready)))
     = [(Some (JStr ''obsolete''), Some (JStr ''9.9''))] \<and>
   document_transitions ex_db_ready = [] \<and>
   document_transitions (snd (putQmsDocument ex_ctx ''SOP-DC-001'' ex_register_put ex_db_ready)) = []"
proof -
  have re: "DOC_ID_RE ''SOP-DC-001''"
    by (simp add: DOC_ID_RE_def is_alnum_def)
  have sets: "set_clauses ex_register_put =
                [(''version'', JStr ''9.9''), (''status'', JStr ''obsolete'')]"
    by (simp add: set_clauses_def allowedFields_def ex_register_put_def)
  have tabs: "controlled_documents ex_db_ready = [ex_cdoc]" "document_transitions ex_db_ready = []"
    by (simp_all add: ex_db_ready_def ex_db_missing_def)
  have row: "ex_cdoc ''document_id'' = Some (JStr ''SOP-DC-001'')"
    "ex_cdoc ''status'' = Some (JStr ''in_review'')" "ex_cdoc ''version'' = Some (JStr ''1.0'')"
    by (simp_all add: ex_cdoc_def)
  show ?thesis
    by (simp add: putQmsDocument_def re sets tabs row Let_def)
qed

subsection \<open>C6: error responses and what the transaction holds\<close>

text \<open>
  The draft handlers answer every error before their first write, with one exception.
\<close>

lemma draft_errors_before_writes:
  "status (fst (putDocDraft c pb s)) \<notin> {Some 200, Some 201} \<Longrightarrow> snd (putDocDraft c pb s) = s"
  "status (fst (deleteDocDraft c q s)) \<noteq> None \<Longrightarrow> snd (deleteDocDraft c q s) = s"
  "status (fst (postDocDraftSubmit c sb s)) \<noteq> None \<Longrightarrow> snd (postDocDraftSubmit c sb s) = s"
  "status (fst (postDocDraftReject c rb s)) \<noteq> None \<Longrightarrow> snd (postDocDraftReject c rb s) = s"
  by (auto simp: putDocDraft_def deleteDocDraft_def postDocDraftSubmit_def
        postDocDraftReject_def Let_def split_beta draft_status_conflict_def
        split: if_splits list.splits option.splits)

lemma approve_errors_before_gate:
  assumes "postDocDraftApprove c b s = (Inr resp, s')"
    and "status resp \<in> {Some 400, Some 404, Some 409}"
  shows "s' = s"
proof (cases "str_truthy (ab_slug b)")
  case False
  then show ?thesis using assms by (simp add: postDocDraftApprove_def)
next
  case True
  show ?thesis
  proof (cases "draft_join s (str_or (ab_slug b) [])")
    case Nil
    then show ?thesis using True assms by (simp add: postDocDraftApprove_def)
  next
    case (Cons p rest)
    obtain dr d where p: "p = (dr, d)" by (cases p)
    show ?thesis
    proof (cases "dr_status dr = ''in_review''")
      case False
      then show ?thesis using True Cons p assms by (simp add: postDocDraftApprove_def)
    next
      case review: True
      obtain r s4 where q: "approve_qms c b dr d (approve_publish c dr d s) = (r, s4)"
        by (cases "approve_qms c b dr d (approve_publish c dr d s)")
      have "status resp = Some 422 \<or> status resp = None"
        using approve_qms_cases [OF q] True Cons p review q assms(1)
        by (auto simp: postDocDraftApprove_def missing_evidence_response_def
              published_response_def)
      then show ?thesis using assms(2) by auto
    qed
  qed
qed

text \<open>
  C6 at the missing-evidence error. The handler returns status 422 after steps 2 to 4 have
  run on the transaction: at that return \<open>i18n.docs\<close> carries the draft's version and body,
  \<open>i18n.doc_versions\<close> holds the snapshot of version 1.0 marked as superseded by 1.1, and
  the draft is still in review.
\<close>

theorem approve_422_after_publication:
  "fst (postDocDraftApprove ex_ctx ex_approve ex_db_missing) =
     Inr (missing_evidence_response [ex_coi]) \<and>
   status (missing_evidence_response [ex_coi]) = Some 422 \<and>
   map (\<lambda>x. (d_version x, d_body_md x)) (docs ex_db_missing) =
     [(Some ''1.0'', Some ''old body'')] \<and>
   map (\<lambda>x. (d_version x, d_body_md x))
       (docs (snd (postDocDraftApprove ex_ctx ex_approve ex_db_missing))) =
     [(Some ''1.1'', Some ''new body'')] \<and>
   doc_versions ex_db_missing = [] \<and>
   map (\<lambda>v. (dv_version v, dv_body_md v, dv_superseded_by v))
       (doc_versions (snd (postDocDraftApprove ex_ctx ex_approve ex_db_missing))) =
     [(''1.0'', Some ''old body'', Some ''1.1'')] \<and>
   doc_drafts (snd (postDocDraftApprove ex_ctx ex_approve ex_db_missing)) = [ex_draft]"
proof -
  show ?thesis
    unfolding approve_ex_db_missing fst_conv snd_conv
    by (simp add: missing_evidence_response_def approve_publish_def publish_draft_def
          supersede_versions_def insert_version_def Let_def coalesce_def str_or_def
          ex_db_missing_def ex_draft_def ex_doc_def json_truthy_def)
qed

section \<open>Properties of the training handlers\<close>

lemma record_completion_frame:
  "training_sessions (record_completion sid n k u dat s) = training_sessions s"
  "training_certificates (record_completion sid n k u dat s) = training_certificates s"
  "user_roles (record_completion sid n k u dat s) = user_roles s"
  "users (record_completion sid n k u dat s) = users s"
  "next_id (record_completion sid n k u dat s) = next_id s"
  "db_schema (record_completion sid n k u dat s) = db_schema s"
  by (simp_all add: record_completion_def)

lemma record_completion_has:
  "\<exists>x \<in> set (training_step_completions (record_completion sid n k u dat s)).
     sc_session_id x = sid \<and> sc_step_number x = n"
  by (cases "\<exists>x \<in> set (training_step_completions s).
               sc_session_id x = sid \<and> sc_step_number x = n")
     (simp_all add: record_completion_def)











text \<open>The error responses carry neither \<open>ok\<close> nor \<open>completed\<close>.\<close>

lemma error_response_keys:
  "status (error_response st msg) = Some st"
  "jget (body (error_response st msg)) ''ok'' = None"
  "jget (body (error_response st msg)) ''completed'' = None"
  by (simp_all add: error_response_def jget_def)

text \<open>A step either leaves the database alone, or it passed.\<close>

lemma run_step_cases:
  assumes "run_step c sid n ts tm s = (x, s')"
  shows "(s' = s \<and> (\<forall>resp. x = Inr resp \<longrightarrow>
                        jget (body resp) ''ok'' \<noteq> Some (JBool True) \<and>
                        jget (body resp) ''completed'' = None))
       \<or> (\<exists>stepDef data resp. x = Inr resp \<and>
                step_passed c sid n ts tm stepDef data s = (resp, s'))"
proof (cases "filter (\<lambda>sd. sd_step sd = n) (tm_steps tm)")
  case Nil
  then show ?thesis using assms by (auto simp: run_step_def error_response_keys)
next
  case (Cons stepDef sds)
  show ?thesis
  proof (cases "training_doc_lookup s (ts_training_doc_id ts)")
    case Nil
    then show ?thesis using assms Cons by (auto simp: run_step_def error_response_keys)
  next
    case look: (Cons p ps)
    obtain docsId qmsDocId where p: "p = (docsId, qmsDocId)" by (cases p)
    show ?thesis
    proof (cases "validators (sd_validation stepDef)")
      case None
      then show ?thesis using assms Cons look p
        by (auto simp: run_step_def error_response_keys)
    next
      case (Some validatorFn)
      show ?thesis
      proof (cases "validatorFn c s docsId qmsDocId")
        case (Inl e)
        then show ?thesis using assms Cons look p Some
          by (auto simp: run_step_def)
      next
        case (Inr v)
        show ?thesis
        proof (cases v)
          case (Failed message)
          then show ?thesis using assms Cons look p Some Inr
            by (auto simp: run_step_def jget_def)
        next
          case Other
          then show ?thesis using assms Cons look p Some Inr
            by (auto simp: run_step_def jget_def)
        next
          case (Passed data)
          obtain resp t where sp: "step_passed c sid n ts tm stepDef data s = (resp, t)"
            by (cases "step_passed c sid n ts tm stepDef data s")
          then have "x = Inr resp \<and> s' = t"
            using assms Cons look p Some Inr Passed by (simp add: run_step_def)
          then show ?thesis using sp by blast
        qed
      qed
    qed
  qed
qed

lemma validate_step_cases:
  assumes "vb_session_id b = Some sid" and "vb_step_number b = Some j"
    and "session_join s sid = (ts, tm) # rest"
    and "postTrainingValidateStep c b s = (x, s')"
  shows "(s' = s \<and> (\<forall>resp. x = Inr resp \<longrightarrow>
                        jget (body resp) ''ok'' \<noteq> Some (JBool True) \<and>
                        jget (body resp) ''completed'' = None))
       \<or> (sid \<noteq> 0 \<and> ts_user_id ts = user_id c \<and> ts_status ts = ''in_progress'' \<and>
           j = JNum (ts_current_step ts) \<and>
           (\<exists>stepDef data resp. x = Inr resp \<and>
              step_passed c sid (ts_current_step ts) ts tm stepDef data s = (resp, s')))"
proof (cases "sid \<noteq> 0 \<and> ts_user_id ts = user_id c \<and> ts_status ts = ''in_progress'' \<and>
              j = JNum (ts_current_step ts)")
  case False
  then have "s' = s \<and> (\<forall>resp. x = Inr resp \<longrightarrow>
               jget (body resp) ''ok'' = None \<and> jget (body resp) ''completed'' = None)"
    using assms
    by (auto simp: postTrainingValidateStep_def error_response_keys split: if_splits)
  then show ?thesis by simp
next
  case True
  then have "run_step c sid (ts_current_step ts) ts tm s = (x, s')"
    using assms by (simp add: postTrainingValidateStep_def)
  from run_step_cases [OF this] True show ?thesis by blast
qed

text \<open>
  A step that validates: the session is the user's, in progress and at this step, the
  module defines the step, the training document is found, and the validator of the step
  answers \<open>ok\<close>. Then the handler returns what \<open>step_passed\<close> does.
\<close>

lemma validate_step_passed:
  assumes "vb_session_id b = Some sid" and "sid \<noteq> 0"
    and "vb_step_number b = Some (JNum (ts_current_step ts))"
    and "session_join s sid = (ts, tm) # rest"
    and "ts_user_id ts = user_id c" and "ts_status ts = ''in_progress''"
    and "filter (\<lambda>sd. sd_step sd = ts_current_step ts) (tm_steps tm) = stepDef # sds"
    and "training_doc_lookup s (ts_training_doc_id ts) = (docsId, qmsDocId) # ps"
    and "validators (sd_validation stepDef) = Some validatorFn"
    and "validatorFn c s docsId qmsDocId = Inr (Passed data)"
  shows "postTrainingValidateStep c b s =
           (Inr (fst (step_passed c sid (ts_current_step ts) ts tm stepDef data s)),
            snd (step_passed c sid (ts_current_step ts) ts tm stepDef data s))"
  using assms by (simp add: postTrainingValidateStep_def run_step_def split_beta)


lemma step_passed_not_last:
  assumes "n \<noteq> int (length (tm_steps tm))"
  shows "training_sessions (snd (step_passed c sid n ts tm stepDef data s)) =
           map (\<lambda>x. if ts_id x = sid then x\<lparr>ts_current_step := n + 1\<rparr> else x)
               (training_sessions s)"
    and "training_step_completions (snd (step_passed c sid n ts tm stepDef data s)) =
           training_step_completions
             (record_completion sid n (sd_key stepDef) (user_id c)
                (json_or (Some data) (JObj [])) s)"
    and "status (fst (step_passed c sid n ts tm stepDef data s)) = None"
    and "jget (body (fst (step_passed c sid n ts tm stepDef data s))) ''ok'' = Some (JBool True)"
    and "jget (body (fst (step_passed c sid n ts tm stepDef data s))) ''completed'' =
           Some (JBool False)"
    and "jget (body (fst (step_passed c sid n ts tm stepDef data s))) ''current_step'' =
           Some (JNum (n + 1))"
  using assms
  by (simp_all add: step_passed_def Let_def split_beta jget_def record_completion_frame)

lemma session_join_member:
  assumes "session_join s sid = (ts, tm) # rest"
  shows "ts \<in> set (training_sessions s) \<and> ts_id ts = sid \<and> tm \<in> set (training_modules s)"
proof -
  have "(ts, tm) \<in> set (session_join s sid)"
    using assms by simp
  then show ?thesis by (auto simp: session_join_def)
qed


text \<open>The example session, evaluated.\<close>

lemma ex_training_tables:
  "training_sessions (ex_db_training k) = [ex_session k]"
  "user_roles (ex_db_training k) = [ex_old_grant]"
  "training_certificates (ex_db_training k) = []"
  "db_schema (ex_db_training k) = ex_schema"
  "next_id (ex_db_training k) = 10"
  by (simp_all add: ex_db_training_def ex_db_missing_def)

lemma ex_training_session:
  "vb_session_id (ex_validate k) = Some 3" "(3::nat) \<noteq> 0"
  "vb_step_number (ex_validate k) = Some (JNum k)"
  "session_join (ex_db_training j) 3 = (ex_session j, ex_module) # []"
  "ts_user_id (ex_session j) = user_id ex_ctx" "ts_status (ex_session j) = ''in_progress''"
  "ts_current_step (ex_session j) = j" "ts_id (ex_session j) = 3"
  by (simp_all add: ex_validate_def session_join_def ex_db_training_def ex_session_def
        ex_module_def user_id_def ex_ctx_def str_or_def)

lemma ex_training_module:
  "tm_steps ex_module = [ex_step_1, ex_step_2]"
  "int (length (tm_steps ex_module)) = 2"
  "filter (\<lambda>sd. sd_step sd = 1) (tm_steps ex_module) = ex_step_1 # []"
  "filter (\<lambda>sd. sd_step sd = 2) (tm_steps ex_module) = ex_step_2 # []"
  "tm_grants_roles ex_module = Some [''author'', ''reviewer'']"
  by (simp_all add: ex_module_def ex_step_1_def ex_step_2_def)

lemma ex_training_lookup:
  "training_doc_lookup (ex_db_training j) (ts_training_doc_id (ex_session j)) =
     (1, ''SOP-DC-001'') # []"
  by (simp add: training_doc_lookup_def ex_db_training_def ex_db_missing_def ex_session_def
        ex_cdoc_def ex_doc_def)

lemma ex_training_validators:
  "validators (sd_validation ex_step_1) =
     Some (\<lambda>c s docsId qmsDocId. Inr (draft_in_review s docsId))"
  "validators (sd_validation ex_step_2) =
     Some (\<lambda>c s docsId qmsDocId. Inr (evidence_justification s qmsDocId))"
  "draft_in_review (ex_db_training 1) 1 =
     Passed (JObj [(''draft_id'', JNum 7), (''status'', JStr ''in_review'')])"
  "evidence_justification (ex_db_training 2) ''SOP-DC-001'' =
     Passed (JObj [(''evidence_id'', JNum 1), (''recorded_at'', JNum 55)])"
  by (simp_all add: validators_def ex_step_1_def ex_step_2_def draft_in_review_def
        evidence_justification_def current_evidence_def evidence_found_def
        ex_db_training_def ex_db_missing_def ex_draft_def ex_evidence_def)

subsection \<open>C7: completion of the last step\<close>





subsection \<open>C9: steps in order\<close>

lemma advanced_rows:
  assumes rows: "training_sessions s' =
                   map (\<lambda>x. if ts_id x = sid then x\<lparr>ts_current_step := k\<rparr> else x)
                       (training_sessions s)"
    and ts: "ts \<in> set (training_sessions s)" "ts_id ts = sid"
  shows "\<exists>x \<in> set (training_sessions s'). ts_id x = sid"
    and "\<forall>x \<in> set (training_sessions s'). ts_id x = sid \<longrightarrow> ts_current_step x = k"
proof -
  let ?g = "\<lambda>x. if ts_id x = sid then x\<lparr>ts_current_step := k\<rparr> else x"
  have "?g ts \<in> set (training_sessions s')"
    unfolding rows using ts(1) by simp
  moreover have "ts_id (?g ts) = sid"
    using ts(2) by simp
  ultimately show "\<exists>x \<in> set (training_sessions s'). ts_id x = sid"
    by blast
  show "\<forall>x \<in> set (training_sessions s'). ts_id x = sid \<longrightarrow> ts_current_step x = k"
  proof (intro ballI impI)
    fix x
    assume mem: "x \<in> set (training_sessions s')" and id: "ts_id x = sid"
    have "x \<in> ?g ` set (training_sessions s)"
      using mem unfolding rows by simp
    then obtain y where x: "x = ?g y" and "y \<in> set (training_sessions s)"
      by (rule imageE)
    show "ts_current_step x = k"
      using id unfolding x by (cases "ts_id y = sid") simp_all
  qed
qed

text \<open>
  C9, as the handler implements it. For a request that names an in-progress training
  session and submits a step number:
  \<^item> when the session belongs to another user the answer is 403 and nothing changes,
    whatever the step number;
  \<^item> when the session is the user's and the step number is not its \<open>current_step\<close>,
    the answer is 409 and nothing changes;
  \<^item> a step is accepted (\<open>ok: true\<close>, or any change of the database) only when the
    session is the user's and the step number equals \<open>current_step\<close>;
  \<^item> when the user's current step is not the module's last and validates successfully
    (the module defines it, the training document is found and the step's validator
    answers \<open>ok\<close>), the handler answers \<open>ok: true\<close>, \<open>completed: false\<close>, the
    session's \<open>current_step\<close> is its old value plus 1, and a completion of that step
    is on record.
\<close>

theorem steps_validated_in_order:
  assumes "vb_session_id b = Some sid" and "sid \<noteq> 0" and "vb_step_number b = Some j"
    and "session_join s sid = (ts, tm) # rest" and "ts_status ts = ''in_progress''"
  shows "(ts_user_id ts \<noteq> user_id c \<longrightarrow>
            postTrainingValidateStep c b s =
              (Inr (error_response 403 ''This session belongs to another user''), s)) \<and>
         (ts_user_id ts = user_id c \<and> j \<noteq> JNum (ts_current_step ts) \<longrightarrow>
            (\<exists>resp. postTrainingValidateStep c b s = (Inr resp, s) \<and>
                    status resp = Some 409)) \<and>
         (\<forall>x s'. postTrainingValidateStep c b s = (x, s') \<and>
                  (s' \<noteq> s \<or>
                   (\<exists>resp. x = Inr resp \<and> jget (body resp) ''ok'' = Some (JBool True))) \<longrightarrow>
                  ts_user_id ts = user_id c \<and> j = JNum (ts_current_step ts)) \<and>
         (\<forall>stepDef sds docsId qmsDocId ps validatorFn data.
            ts_user_id ts = user_id c \<and> j = JNum (ts_current_step ts) \<and>
            ts_current_step ts \<noteq> int (length (tm_steps tm)) \<and>
            filter (\<lambda>sd. sd_step sd = ts_current_step ts) (tm_steps tm) = stepDef # sds \<and>
            training_doc_lookup s (ts_training_doc_id ts) = (docsId, qmsDocId) # ps \<and>
            validators (sd_validation stepDef) = Some validatorFn \<and>
            validatorFn c s docsId qmsDocId = Inr (Passed data) \<longrightarrow>
            (\<exists>resp s'.
               postTrainingValidateStep c b s = (Inr resp, s') \<and>
               status resp = None \<and>
               jget (body resp) ''ok'' = Some (JBool True) \<and>
               jget (body resp) ''completed'' = Some (JBool False) \<and>
               jget (body resp) ''current_step'' = Some (JNum (ts_current_step ts + 1)) \<and>
               training_sessions s' =
                 map (\<lambda>x. if ts_id x = sid
                          then x\<lparr>ts_current_step := ts_current_step ts + 1\<rparr> else x)
                     (training_sessions s) \<and>
               (\<exists>x \<in> set (training_sessions s'). ts_id x = sid) \<and>
               (\<forall>x \<in> set (training_sessions s').
                  ts_id x = sid \<longrightarrow> ts_current_step x = ts_current_step ts + 1) \<and>
               (\<exists>x \<in> set (training_step_completions s').
                  sc_session_id x = sid \<and> sc_step_number x = ts_current_step ts)))"
proof (intro conjI allI impI)
  assume "ts_user_id ts \<noteq> user_id c"
  then show "postTrainingValidateStep c b s =
               (Inr (error_response 403 ''This session belongs to another user''), s)"
    using assms by (simp add: postTrainingValidateStep_def)
next
  assume "ts_user_id ts = user_id c \<and> j \<noteq> JNum (ts_current_step ts)"
  then show "\<exists>resp. postTrainingValidateStep c b s = (Inr resp, s) \<and> status resp = Some 409"
    using assms by (simp add: postTrainingValidateStep_def error_response_keys)
next
  fix x s'
  assume a: "postTrainingValidateStep c b s = (x, s') \<and>
             (s' \<noteq> s \<or>
              (\<exists>resp. x = Inr resp \<and> jget (body resp) ''ok'' = Some (JBool True)))"
  from validate_step_cases [OF assms(1,3,4) a [THEN conjunct1]] a [THEN conjunct2]
  have "ts_user_id ts = user_id c \<and> j = JNum (ts_current_step ts)"
    by blast
  then show "ts_user_id ts = user_id c" and "j = JNum (ts_current_step ts)"
    by simp_all
next
  fix stepDef sds docsId qmsDocId ps validatorFn data
  assume a: "ts_user_id ts = user_id c \<and> j = JNum (ts_current_step ts) \<and>
            ts_current_step ts \<noteq> int (length (tm_steps tm)) \<and>
            filter (\<lambda>sd. sd_step sd = ts_current_step ts) (tm_steps tm) = stepDef # sds \<and>
            training_doc_lookup s (ts_training_doc_id ts) = (docsId, qmsDocId) # ps \<and>
            validators (sd_validation stepDef) = Some validatorFn \<and>
            validatorFn c s docsId qmsDocId = Inr (Passed data)"
  let ?n = "ts_current_step ts"
  let ?p = "step_passed c sid ?n ts tm stepDef data s"
  have run: "postTrainingValidateStep c b s = (Inr (fst ?p), snd ?p)"
    using validate_step_passed [of b sid ts s tm rest c stepDef sds docsId qmsDocId ps
            validatorFn data] assms a
    by simp
  have nl: "?n \<noteq> int (length (tm_steps tm))"
    using a by simp
  note sp = step_passed_not_last [OF nl, of c sid ts stepDef data s]
  from session_join_member [OF assms(4)]
  have ts: "ts \<in> set (training_sessions s)" "ts_id ts = sid"
    by simp_all
  note adv = advanced_rows [OF sp(1) ts]
  have rec: "\<exists>x \<in> set (training_step_completions (snd ?p)).
               sc_session_id x = sid \<and> sc_step_number x = ts_current_step ts"
    unfolding sp(2) by (rule record_completion_has)
  show "\<exists>resp s'.
               postTrainingValidateStep c b s = (Inr resp, s') \<and>
               status resp = None \<and>
               jget (body resp) ''ok'' = Some (JBool True) \<and>
               jget (body resp) ''completed'' = Some (JBool False) \<and>
               jget (body resp) ''current_step'' = Some (JNum (ts_current_step ts + 1)) \<and>
               training_sessions s' =
                 map (\<lambda>x. if ts_id x = sid
                          then x\<lparr>ts_current_step := ts_current_step ts + 1\<rparr> else x)
                     (training_sessions s) \<and>
               (\<exists>x \<in> set (training_sessions s'). ts_id x = sid) \<and>
               (\<forall>x \<in> set (training_sessions s').
                  ts_id x = sid \<longrightarrow> ts_current_step x = ts_current_step ts + 1) \<and>
               (\<exists>x \<in> set (training_step_completions s').
                  sc_session_id x = sid \<and> sc_step_number x = ts_current_step ts)"
    by (intro exI [of _ "fst ?p"] exI [of _ "snd ?p"] conjI)
       (rule run, rule sp(3), rule sp(4), rule sp(5), rule sp(6), rule sp(1), rule adv(1),
        rule adv(2), rule rec)
qed

theorem steps_validated_in_order_witness:
  "(\<exists>resp. postTrainingValidateStep ex_ctx (ex_validate 2) (ex_db_training 1) =
            (Inr resp, ex_db_training 1) \<and> status resp = Some 409) \<and>
   (\<exists>resp s'. postTrainingValidateStep ex_ctx (ex_validate 1) (ex_db_training 1) =
               (Inr resp, s') \<and>
               jget (body resp) ''completed'' = Some (JBool False) \<and>
               map ts_current_step (training_sessions s') = [2])"
proof -
  note wrong = steps_validated_in_order
                 [of "ex_validate 2" 3 "JNum 2" "ex_db_training 1" "ex_session 1" ex_module "[]"
                     ex_ctx,
                  OF ex_training_session(1-4) ex_training_session(6)]
  note right = steps_validated_in_order
                 [of "ex_validate 1" 3 "JNum 1" "ex_db_training 1" "ex_session 1" ex_module "[]"
                     ex_ctx,
                  OF ex_training_session(1-4) ex_training_session(6)]
  have conflict: "\<exists>resp. postTrainingValidateStep ex_ctx (ex_validate 2) (ex_db_training 1) =
            (Inr resp, ex_db_training 1) \<and> status resp = Some 409"
    using wrong [THEN conjunct2, THEN conjunct1]
    by (simp add: ex_training_session(5,7))
  have hyp: "ts_user_id (ex_session 1) = user_id ex_ctx \<and>
             JNum 1 = JNum (ts_current_step (ex_session 1)) \<and>
             ts_current_step (ex_session 1) \<noteq> int (length (tm_steps ex_module)) \<and>
             filter (\<lambda>sd. sd_step sd = ts_current_step (ex_session 1)) (tm_steps ex_module) =
               ex_step_1 # [] \<and>
             training_doc_lookup (ex_db_training 1) (ts_training_doc_id (ex_session 1)) =
               (1, ''SOP-DC-001'') # [] \<and>
             validators (sd_validation ex_step_1) =
               Some (\<lambda>c s docsId qmsDocId. Inr (draft_in_review s docsId)) \<and>
             (\<lambda>c s docsId qmsDocId. Inr (draft_in_review s docsId))
               ex_ctx (ex_db_training 1) 1 ''SOP-DC-001'' =
               Inr (Passed (JObj [(''draft_id'', JNum 7), (''status'', JStr ''in_review'')]))"
    by (simp add: ex_training_session ex_training_module(2-5) ex_training_lookup
          ex_training_validators(1,2) ex_training_validators(3) [simplified])
  from right [THEN conjunct2, THEN conjunct2, THEN conjunct2, rule_format, OF hyp]
  obtain resp s' where adv:
      "postTrainingValidateStep ex_ctx (ex_validate 1) (ex_db_training 1) = (Inr resp, s') \<and>
       status resp = None \<and>
       jget (body resp) ''ok'' = Some (JBool True) \<and>
       jget (body resp) ''completed'' = Some (JBool False) \<and>
       jget (body resp) ''current_step'' = Some (JNum (ts_current_step (ex_session 1) + 1)) \<and>
       training_sessions s' =
         map (\<lambda>x. if ts_id x = 3
                  then x\<lparr>ts_current_step := ts_current_step (ex_session 1) + 1\<rparr> else x)
             (training_sessions (ex_db_training 1)) \<and>
       (\<exists>x \<in> set (training_sessions s'). ts_id x = 3) \<and>
       (\<forall>x \<in> set (training_sessions s').
          ts_id x = 3 \<longrightarrow> ts_current_step x = ts_current_step (ex_session 1) + 1) \<and>
       (\<exists>x \<in> set (training_step_completions s').
          sc_session_id x = 3 \<and> sc_step_number x = ts_current_step (ex_session 1))"
    by (elim exE)
  have "map ts_current_step (training_sessions s') = [2]"
    using adv by (simp add: ex_training_tables ex_training_session(7,8))
  then have "\<exists>resp s'. postTrainingValidateStep ex_ctx (ex_validate 1) (ex_db_training 1) =
               (Inr resp, s') \<and>
               jget (body resp) ''completed'' = Some (JBool False) \<and>
               map ts_current_step (training_sessions s') = [2]"
    using adv by (intro exI [of _ resp] exI [of _ s']) simp
  with conflict show ?thesis
    by (rule conjI)
qed

text \<open>
  C9 as the specification words it, for every in-progress session, fails where the
  session belongs to another user: the session of user \<open>bob\<close> is in progress at step 1,
  and the request of user \<open>eve\<close> for step 2 is answered with 403, not with 409.
\<close>

theorem out_of_order_step_of_another_user_is_403:
  "session_join (ex_db_training 1) 3 = [(ex_session 1, ex_module)] \<and>
   ts_status (ex_session 1) = ''in_progress'' \<and>
   ts_current_step (ex_session 1) = 1 \<and>
   vb_step_number (ex_validate 2) = Some (JNum 2) \<and>
   postTrainingValidateStep ex_ctx_other (ex_validate 2) (ex_db_training 1) =
     (Inr (error_response 403 ''This session belongs to another user''), ex_db_training 1) \<and>
   status (error_response 403 ''This session belongs to another user'') \<noteq> Some 409"
  by (simp add: postTrainingValidateStep_def ex_training_session ex_ctx_other_def
        ex_session_def user_id_def ex_ctx_def str_or_def error_response_def)

subsection \<open>C10: bumpVersion\<close>

lemma split_on_none: "c \<notin> set p \<Longrightarrow> split_on c p = [p]"
  by (induction p) auto

lemma split_on_append: "c \<notin> set a \<Longrightarrow> split_on c (a @ c # rest) = a # split_on c rest"
  by (induction a) auto

lemma digits_no_dot: "list_all is_digit p \<Longrightarrow> CHR ''.'' \<notin> set p"
  by (auto simp: list_all_iff is_digit_def)

lemma Number_digits:
  "list_all is_digit p \<Longrightarrow> digits_value p < 2 ^ 53 \<Longrightarrow> Number p = Some (digits_value p)"
  by (simp add: Number_def)

lemma js_succ_small: "n < 2 ^ 53 \<Longrightarrow> js_succ n = n + 1"
  by (simp add: js_succ_def)

lemma bump_invalid:
  "bump \<noteq> ''major'' \<Longrightarrow> bump \<noteq> ''minor'' \<Longrightarrow> bump \<noteq> ''patch'' \<Longrightarrow>
   bumpVersion v bump = Some (Inl (Error (''Invalid bump type: '' @ bump)))"
  by (simp add: bumpVersion_def Let_def)

lemma bump_valid_no_error:
  "bump \<in> set [''patch'', ''minor'', ''major''] \<Longrightarrow> bumpVersion v bump \<noteq> Some (Inl e)"
  by (auto simp: bumpVersion_def Let_def split: option.splits)

lemma save_never_invalid_bump: "postDocsSave c b s \<noteq> Some (Inl (Error m), t)"
proof
  assume a: "postDocsSave c b s = Some (Inl (Error m), t)"
  then obtain doc_id body_md version_bump change_summary where
    f: "sv_doc_id b = Some doc_id" "sv_body_md b = Some body_md"
       "sv_version_bump b = Some version_bump" "sv_change_summary b = Some change_summary"
    by (auto simp: postDocsSave_def split: option.splits)
  show False
  proof (cases "version_bump \<in> set [''patch'', ''minor'', ''major'']")
    case False
    then show ?thesis using a f
      by (auto simp: postDocsSave_def split: if_splits)
  next
    case True
    note ok = bump_valid_no_error [OF True]
    show ?thesis using a f True ok
      by (auto simp: postDocsSave_def split_beta
               split: if_splits list.splits option.splits sum.splits)
  qed
qed

text \<open>The version string of one, two or three parts, split again.\<close>

lemma split_on_join:
  assumes "ps \<noteq> []" and "length ps \<le> 3" and "\<forall>p \<in> set ps. CHR ''.'' \<notin> set p"
  shows "split_on CHR ''.'' (join_with ''.'' ps) = ps"
proof -
  from assms(1,2) consider a where "ps = [a]" | a b where "ps = [a, b]"
    | a b c where "ps = [a, b, c]"
    by (cases ps rule: list.exhaust; simp; rename_tac x xs; case_tac xs; simp;
        rename_tac y ys; case_tac ys; simp)
  then show ?thesis
  proof cases
    case 1
    then show ?thesis using assms(3) by (simp add: split_on_none)
  next
    case 2
    then show ?thesis using assms(3) split_on_append [of "CHR ''.''" a b]
      by (simp add: split_on_none)
  next
    case 3
    then show ?thesis
      using assms(3) split_on_append [of "CHR ''.''" a "b @ ''.'' @ c"]
        split_on_append [of "CHR ''.''" b c]
      by (simp add: split_on_none)
  qed
qed

lemma pad3_parts:
  assumes "ps \<noteq> []" and "length ps \<le> 3"
    and "\<forall>p \<in> set ps. list_all is_digit p \<and> digits_value p < 2 ^ 53"
  shows "pad3 (map Number ps) ! 0 = Some (version_part ps 0)"
    and "pad3 (map Number ps) ! 1 = Some (version_part ps 1)"
    and "pad3 (map Number ps) ! 2 = Some (version_part ps 2)"
    and "version_part ps 0 < 2 ^ 53" and "version_part ps 1 < 2 ^ 53"
    and "version_part ps 2 < 2 ^ 53"
proof -
  from assms(1,2) consider a where "ps = [a]" | a b where "ps = [a, b]"
    | a b c where "ps = [a, b, c]"
    by (cases ps rule: list.exhaust; simp; rename_tac x xs; case_tac xs; simp;
        rename_tac y ys; case_tac ys; simp)
  then have "pad3 (map Number ps) ! 0 = Some (version_part ps 0) \<and>
             pad3 (map Number ps) ! 1 = Some (version_part ps 1) \<and>
             pad3 (map Number ps) ! 2 = Some (version_part ps 2) \<and>
             version_part ps 0 < 2 ^ 53 \<and> version_part ps 1 < 2 ^ 53 \<and>
             version_part ps 2 < 2 ^ 53"
  proof cases
    case 1
    then show ?thesis using assms(3)
      by (simp add: pad3_def version_part_def Number_digits)
  next
    case 2
    then show ?thesis using assms(3)
      by (simp add: pad3_def version_part_def Number_digits)
  next
    case 3
    then show ?thesis using assms(3)
      by (simp add: pad3_def version_part_def Number_digits)
  qed
  then show "pad3 (map Number ps) ! 0 = Some (version_part ps 0)"
    and "pad3 (map Number ps) ! 1 = Some (version_part ps 1)"
    and "pad3 (map Number ps) ! 2 = Some (version_part ps 2)"
    and "version_part ps 0 < 2 ^ 53" and "version_part ps 1 < 2 ^ 53"
    and "version_part ps 2 < 2 ^ 53"
    by simp_all
qed

text \<open>
  C10, as the code has it. For a version string of one to three dot-separated parts of
  decimal digits, each of numeric value below \<open>2^53\<close>, with missing parts counted as 0:
  \<open>bumpVersion\<close> returns \<open>(M+1).0.0\<close> for \<open>major\<close>, \<open>M.(m+1).0\<close> for \<open>minor\<close> and
  \<open>M.m.(p+1)\<close> for \<open>patch\<close>. For every other bump argument it throws, whatever the
  version. The POST /@docs/save handler never throws that error.
\<close>

theorem bumpVersion_semver:
  assumes "ps \<noteq> []" and "length ps \<le> 3"
    and "\<forall>p \<in> set ps. p \<noteq> [] \<and> list_all is_digit p \<and> digits_value p < 2 ^ 53"
  shows "bumpVersion (join_with ''.'' ps) ''major'' =
           Some (Inr (show_nat (version_part ps 0 + 1) @ ''.0.0'')) \<and>
         bumpVersion (join_with ''.'' ps) ''minor'' =
           Some (Inr (show_nat (version_part ps 0) @ ''.'' @
                      show_nat (version_part ps 1 + 1) @ ''.0'')) \<and>
         bumpVersion (join_with ''.'' ps) ''patch'' =
           Some (Inr (show_nat (version_part ps 0) @ ''.'' @ show_nat (version_part ps 1) @
                      ''.'' @ show_nat (version_part ps 2 + 1))) \<and>
         (\<forall>v bump. bump \<noteq> ''major'' \<and> bump \<noteq> ''minor'' \<and> bump \<noteq> ''patch'' \<longrightarrow>
            bumpVersion v bump = Some (Inl (Error (''Invalid bump type: '' @ bump)))) \<and>
         (\<forall>c b s m t. postDocsSave c b s \<noteq> Some (Inl (Error m), t))"
proof -
  have dots: "\<forall>p \<in> set ps. CHR ''.'' \<notin> set p"
    using assms(3) digits_no_dot by blast
  have split: "split_on CHR ''.'' (join_with ''.'' ps) = ps"
    using assms(1,2) dots by (rule split_on_join)
  have digits: "\<forall>p \<in> set ps. list_all is_digit p \<and> digits_value p < 2 ^ 53"
    using assms(3) by blast
  note parts = pad3_parts [OF assms(1,2) digits]
  have major: "bumpVersion (join_with ''.'' ps) ''major'' =
                 Some (Inr (show_nat (version_part ps 0 + 1) @ ''.0.0''))"
    by (simp add: bumpVersion_def split parts(1) js_succ_small [OF parts(4)])
  have minor: "bumpVersion (join_with ''.'' ps) ''minor'' =
                 Some (Inr (show_nat (version_part ps 0) @ ''.'' @
                            show_nat (version_part ps 1 + 1) @ ''.0''))"
    by (simp add: bumpVersion_def split parts(1) parts(2) [simplified]
          js_succ_small [OF parts(5), simplified])
  have patch: "bumpVersion (join_with ''.'' ps) ''patch'' =
                 Some (Inr (show_nat (version_part ps 0) @ ''.'' @ show_nat (version_part ps 1) @
                            ''.'' @ show_nat (version_part ps 2 + 1)))"
    by (simp add: bumpVersion_def split parts(1) parts(2) [simplified] parts(3)
          js_succ_small [OF parts(6)])
  have other: "\<forall>v bump. bump \<noteq> ''major'' \<and> bump \<noteq> ''minor'' \<and> bump \<noteq> ''patch'' \<longrightarrow>
            bumpVersion v bump = Some (Inl (Error (''Invalid bump type: '' @ bump)))"
    using bump_invalid by blast
  have save: "\<forall>c b s m t. postDocsSave c b s \<noteq> Some (Inl (Error m), t)"
    using save_never_invalid_bump by blast
  show ?thesis
    by (intro conjI) (rule major, rule minor, rule patch, rule other, rule save)
qed

theorem bumpVersion_semver_witness:
  "bumpVersion ''1.4'' ''major'' = Some (Inr ''2.0.0'') \<and>
   bumpVersion ''1.4'' ''minor'' = Some (Inr ''1.5.0'') \<and>
   bumpVersion ''1.4'' ''patch'' = Some (Inr ''1.4.1'') \<and>
   bumpVersion ''1.4'' ''build'' = Some (Inl (Error ''Invalid bump type: build'')) \<and>
   postDocsSave ex_ctx ex_save ex_db_ready \<noteq>
     Some (Inl (Error ''Invalid bump type: build''), ex_db_ready)"
proof -
  have hyp: "[''1'', ''4''] \<noteq> []" "length [''1'', ''4''] \<le> 3"
    "\<forall>p \<in> set [''1'', ''4'']. p \<noteq> [] \<and> list_all is_digit p \<and> digits_value p < 2 ^ 53"
    by (simp_all add: is_digit_def digits_value_def)
  have vals: "join_with ''.'' [''1'', ''4''] = ''1.4''"
    "show_nat (version_part [''1'', ''4''] 0 + 1) = ''2''"
    "show_nat (version_part [''1'', ''4''] 0) = ''1''"
    "show_nat (version_part [''1'', ''4''] 1 + 1) = ''5''"
    "show_nat (version_part [''1'', ''4''] 1) = ''4''"
    "show_nat (version_part [''1'', ''4''] 2 + 1) = ''1''"
    by (simp_all add: version_part_def digits_value_def show_nat.simps digit_char_def)
  from bumpVersion_semver [OF hyp] show ?thesis
    unfolding vals by simp
qed

text \<open>
  C10 as stated fails at the part \<open>2^53 = 9007199254740992\<close>: the major bump returns the
  same number, not its successor.
\<close>

theorem bumpVersion_counterexample:
  "list_all is_digit ''9007199254740992'' \<and>
   digits_value ''9007199254740992'' = 9007199254740992 \<and>
   bumpVersion ''9007199254740992'' ''major'' = Some (Inr ''9007199254740992.0.0'') \<and>
   show_nat (digits_value ''9007199254740992'' + 1) @ ''.0.0'' = ''9007199254740993.0.0''"
  by (simp add: bumpVersion_def pad3_def Number_def digits_value_def is_digit_def js_succ_def
        show_nat.simps digit_char_def)

section \<open>Error responses\<close>
























end
